theory Spec2Isabelle
  imports Complex_Main
begin

section \<open>Values and errors\<close>

text \<open>
  The notebook \<^verbatim>\<open>preprocessing_layers.ipynb\<close> is a straight-line script over pandas
  dataframes, tf.data pipelines and Keras layers. Table cells are integers or strings.
  Every exception is a value of \<open>error\<close>; a computation that may raise returns
  \<open>error + 'a\<close> with \<open>Inl\<close> for the exception.
\<close>

datatype cell = IntV int | StrV string

datatype error =
    KeyError "string list"
  | ValueError string
  | IndexError
  | NameError string
  | TypeError string
  | AttributeError string
  | OtherError string

definition and_then :: "error + 'a \<Rightarrow> ('a \<Rightarrow> error + 'b) \<Rightarrow> error + 'b" where
  "and_then m f = (case m of Inl e \<Rightarrow> Inl e | Inr x \<Rightarrow> f x)"

section \<open>Dataframes\<close>

text \<open>
  A dataframe is its row count (the length of its index) and its columns in order.
  The operations are the pandas and numpy calls the notebook makes:
  \<^verbatim>\<open>df[name]\<close>, \<^verbatim>\<open>df[name] = values\<close>, \<^verbatim>\<open>np.where(col == v, a, b)\<close>,
  \<^verbatim>\<open>df.drop(columns=names)\<close> and \<^verbatim>\<open>df.iloc[positions]\<close>. Every column of a
  pandas dataframe has as many entries as the index; \<open>iloc\<close> reads a column only then,
  at positions within it.
\<close>

record dataframe =
  nrows :: nat
  cols :: "(string \<times> cell list) list"

definition columns :: "dataframe \<Rightarrow> string list" where
  "columns df = map fst (cols df)"

definition getitem :: "dataframe \<Rightarrow> string \<Rightarrow> error + cell list" where
  "getitem df name =
     (case map_of (cols df) name of None \<Rightarrow> Inl (KeyError [name]) | Some c \<Rightarrow> Inr c)"

definition setitem :: "dataframe \<Rightarrow> string \<Rightarrow> cell list \<Rightarrow> error + dataframe" where
  "setitem df name vs =
     (if length vs \<noteq> nrows df then Inl (ValueError ''Length of values does not match length of index'')
      else if name \<in> set (columns df)
      then Inr (df\<lparr>cols := map (\<lambda>(k, c). if k = name then (k, vs) else (k, c)) (cols df)\<rparr>)
      else Inr (df\<lparr>cols := cols df @ [(name, vs)]\<rparr>))"

definition np_where_eq :: "cell list \<Rightarrow> cell \<Rightarrow> cell \<Rightarrow> cell \<Rightarrow> cell list" where
  "np_where_eq col v a b = map (\<lambda>x. if x = v then a else b) col"

definition drop_columns :: "dataframe \<Rightarrow> string list \<Rightarrow> error + dataframe" where
  "drop_columns df names =
     (case filter (\<lambda>n. n \<notin> set (columns df)) names of
        [] \<Rightarrow> Inr (df\<lparr>cols := filter (\<lambda>(k, c). k \<notin> set names) (cols df)\<rparr>)
      | missing \<Rightarrow> Inl (KeyError missing))"

definition iloc :: "dataframe \<Rightarrow> nat list \<Rightarrow> error + dataframe" where
  "iloc df positions =
     (if list_all (\<lambda>i. i < nrows df) positions \<and> list_all (\<lambda>(k, c). length c = nrows df) (cols df)
      then Inr \<lparr>nrows = length positions,
                cols = map (\<lambda>(k, c). (k, map (\<lambda>i. c ! i) positions)) (cols df)\<rparr>
      else Inl IndexError)"

section \<open>Dataframe objects\<close>

text \<open>
  Python variables hold references. \<^verbatim>\<open>df[name] = values\<close> and \<^verbatim>\<open>df.pop(name)\<close>
  change the object a reference points to; \<^verbatim>\<open>df.copy()\<close>, \<^verbatim>\<open>df.drop(...)\<close> and
  \<^verbatim>\<open>train_test_split\<close> make new objects. The store maps references to dataframes.
  An operation on the store returns its result, or the exception, with the store it leaves.
\<close>

type_synonym ref = nat

record store =
  frames :: "ref \<Rightarrow> dataframe option"
  next_ref :: ref

definition deref :: "ref \<Rightarrow> store \<Rightarrow> error + dataframe" where
  "deref r st = (case frames st r of None \<Rightarrow> Inl (OtherError ''no such object'') | Some df \<Rightarrow> Inr df)"

definition new_frame :: "dataframe \<Rightarrow> store \<Rightarrow> ref \<times> store" where
  "new_frame df st =
     (next_ref st, st\<lparr>frames := (frames st)(next_ref st \<mapsto> df), next_ref := Suc (next_ref st)\<rparr>)"

definition frame_copy :: "ref \<Rightarrow> store \<Rightarrow> (error + ref) \<times> store" where
  "frame_copy r st =
     (case deref r st of
        Inl e \<Rightarrow> (Inl e, st)
      | Inr df \<Rightarrow> (case new_frame df st of (r', st') \<Rightarrow> (Inr r', st')))"

definition frame_pop :: "ref \<Rightarrow> string \<Rightarrow> store \<Rightarrow> (error + cell list) \<times> store" where
  "frame_pop r name st =
     (case deref r st of
        Inl e \<Rightarrow> (Inl e, st)
      | Inr df \<Rightarrow>
          (case getitem df name of
             Inl e \<Rightarrow> (Inl e, st)
           | Inr c \<Rightarrow>
               (Inr c, st\<lparr>frames := (frames st)(r \<mapsto> df\<lparr>cols := filter (\<lambda>(k, c). k \<noteq> name) (cols df)\<rparr>)\<rparr>)))"

section \<open>The input pipeline\<close>

text \<open>
  A tf.data dataset is the pipeline of the calls that built it; nothing is read until it
  is iterated. \<open>FromTensorSlices\<close> holds the feature dictionary and the labels.
\<close>

datatype dataset =
    FromTensorSlices "(string \<times> cell list) list" "cell list"
  | Shuffle nat dataset
  | Batch nat dataset
  | Prefetch nat dataset
  | Take nat dataset
  | MapFeature string dataset

text \<open>
  \<^verbatim>\<open>
  def df_to_dataset(dataframe, shuffle=True, batch_size=32):
    dataframe = dataframe.copy()
    labels = dataframe.pop('target')
    ds = tf.data.Dataset.from_tensor_slices((dict(dataframe), labels))
    if shuffle:
      ds = ds.shuffle(buffer_size=len(dataframe))
    ds = ds.batch(batch_size)
    ds = ds.prefetch(batch_size)
    return ds
  \<close>
\<close>

definition df_to_dataset :: "ref \<Rightarrow> bool \<Rightarrow> nat \<Rightarrow> store \<Rightarrow> (error + dataset) \<times> store" where
  "df_to_dataset dataframe shuffle batch_size st =
     (case frame_copy dataframe st of
        (Inl e, st1) \<Rightarrow> (Inl e, st1)
      | (Inr dataframe, st1) \<Rightarrow>
     (case frame_pop dataframe ''target'' st1 of
        (Inl e, st2) \<Rightarrow> (Inl e, st2)
      | (Inr labels, st2) \<Rightarrow>
     (case deref dataframe st2 of
        Inl e \<Rightarrow> (Inl e, st2)
      | Inr df \<Rightarrow>
          (let ds = FromTensorSlices (cols df) labels;
               ds = (if shuffle then Shuffle (nrows df) ds else ds);
               ds = Batch batch_size ds;
               ds = Prefetch batch_size ds
           in (Inr ds, st2)))))"

text \<open>The stages of a pipeline, outermost last, and the keys of its feature dictionary.\<close>

datatype stage = ShuffleStage nat | BatchStage nat | PrefetchStage nat | TakeStage nat | MapStage string

fun stages :: "dataset \<Rightarrow> stage list" where
  "stages (FromTensorSlices d l) = []"
| "stages (Shuffle n ds) = stages ds @ [ShuffleStage n]"
| "stages (Batch n ds) = stages ds @ [BatchStage n]"
| "stages (Prefetch n ds) = stages ds @ [PrefetchStage n]"
| "stages (Take n ds) = stages ds @ [TakeStage n]"
| "stages (MapFeature name ds) = stages ds @ [MapStage name]"

fun feature_keys :: "dataset \<Rightarrow> string list option" where
  "feature_keys (FromTensorSlices d l) = Some (map fst d)"
| "feature_keys (Shuffle n ds) = feature_keys ds"
| "feature_keys (Batch n ds) = feature_keys ds"
| "feature_keys (Prefetch n ds) = feature_keys ds"
| "feature_keys (Take n ds) = feature_keys ds"
| "feature_keys (MapFeature name ds) = None"

text \<open>
  \<^verbatim>\<open>dataset.map(lambda x, y: x[name])\<close>: the function is traced when \<open>map\<close> is called,
  so a missing key raises there.
\<close>

definition map_feature :: "string \<Rightarrow> dataset \<Rightarrow> error + dataset" where
  "map_feature name ds =
     (case feature_keys ds of
        None \<Rightarrow> Inl (TypeError ''elements are not (features, label) pairs'')
      | Some keys \<Rightarrow> if name \<in> set keys then Inr (MapFeature name ds) else Inl (KeyError [name]))"

section \<open>Layers, symbolic tensors and models\<close>

text \<open>
  What the framework computes in floating point (the statistics \<open>Normalization.adapt\<close>
  learns, trained weights, saved models, predictions) is opaque to the notebook: it is a
  value of the type parameter \<open>'a\<close>. A \<open>Normalization\<close> layer carries the statistics it has
  learned, if any; a lookup layer carries its \<open>max_tokens\<close> and its vocabulary, empty until
  \<open>adapt\<close>. A tensor is an eager value, a \<^verbatim>\<open>tf.keras.Input\<close> placeholder, or the result of
  calling a layer; the functional API builds the model from such terms.
\<close>

datatype dtype = DFloat32 | DInt64 | DString

datatype 'a layer =
    Normalization "'a option"
  | StringLookup "nat option" "cell list"
  | IntegerLookup "nat option" "cell list"
  | CategoryEncoding nat
  | Dense nat "string option"
  | Dropout real

datatype 'a tensor =
    Eager "cell list"
  | Input string dtype
  | Call "'a layer" "'a tensor"
  | Concatenate "'a tensor list"

record 'a model =
  model_inputs :: "'a tensor list"
  model_output :: "'a tensor"
  compile_args :: "(string \<times> string \<times> string list) option"
  trained :: "'a option"

section \<open>The libraries\<close>

text \<open>
  The library calls whose results the notebook cannot determine are parameters: the
  files behind \<^verbatim>\<open>get_file\<close> and \<^verbatim>\<open>read_csv\<close>, the row positions scikit-learn's
  shuffle picks for (train, test), the batches a dataset yields, the statistics
  \<open>Normalization.adapt\<close> learns, the tokens a lookup layer's \<open>adapt\<close> counts in a dataset
  (most frequent first, the out-of-vocabulary token left out), eager evaluation of a
  \<open>Normalization\<close> call, and Keras's \<open>plot_model\<close>, \<open>fit\<close>, \<open>evaluate\<close>, \<open>save\<close>,
  \<open>load_model\<close>, \<open>predict\<close> and \<^verbatim>\<open>tf.nn.sigmoid\<close>. Each may raise.
\<close>

record 'a env =
  keras_get_file :: "string \<Rightarrow> string \<Rightarrow> error + unit"
  pd_read_csv :: "string \<Rightarrow> error + dataframe"
  sklearn_split :: "real \<Rightarrow> nat \<Rightarrow> error + nat list \<times> nat list"
  dataset_iter :: "dataset \<Rightarrow> error + ((string \<times> cell list) list \<times> cell list) list"
  layer_adapt :: "'a layer \<Rightarrow> dataset \<Rightarrow> error + 'a"
  token_ranking :: "'a layer \<Rightarrow> dataset \<Rightarrow> error + cell list"
  eager_value :: "'a tensor \<Rightarrow> error + unit"
  keras_plot_model :: "'a model \<Rightarrow> error + unit"
  model_fit :: "'a model \<Rightarrow> dataset \<Rightarrow> nat \<Rightarrow> dataset \<Rightarrow> error + 'a"
  model_evaluate :: "'a model \<Rightarrow> dataset \<Rightarrow> error + 'a \<times> 'a"
  model_save :: "'a model \<Rightarrow> error + 'a"
  keras_load_model :: "'a \<Rightarrow> error + 'a model"
  model_predict :: "'a model \<Rightarrow> (string \<times> cell list) list \<Rightarrow> error + 'a"
  nn_sigmoid :: "'a \<Rightarrow> error + 'a"

section \<open>Lookup and category encoding layers\<close>

text \<open>
  What the notebook relies on of Keras's \<open>StringLookup\<close>, \<open>IntegerLookup\<close> and
  \<open>CategoryEncoding\<close>, with their default arguments, as Keras documents them.
  \<^item> The constructor of a lookup layer raises \<open>ValueError\<close> for a \<open>max_tokens\<close> of 0 or 1.
  \<^item> \<open>adapt\<close> replaces the vocabulary by the tokens counted in the dataset, most frequent
    first, cut to \<open>max_tokens - 1\<close> of them when \<open>max_tokens\<close> is given: index 0 is kept
    for values out of the vocabulary.
  \<^item> \<open>vocabulary_size()\<close> counts the vocabulary and the out-of-vocabulary index.
  \<^item> Called on values, a lookup layer gives each its index: its position in the vocabulary
    plus one, or 0 when it is not there.
  \<^item> \<open>CategoryEncoding(num_tokens)\<close>, whose output mode is multi-hot, called on the indices
    of one sample gives a vector of \<open>num_tokens\<close> entries, 1 at every index present and 0
    elsewhere (written as naturals; Keras gives the floats 0. and 1.). It raises when an
    index is not below \<open>num_tokens\<close>.
  The outputs recorded in the notebook agree: for a batch of types, one vector of 3
  entries \<^verbatim>\<open>[0., 1., 1.]\<close>; for a batch of ages with \<open>max_tokens=5\<close>, one vector of 5.
\<close>

definition new_StringLookup :: "nat option \<Rightarrow> error + 'a layer" where
  "new_StringLookup max_tokens =
     (case max_tokens of
        None \<Rightarrow> Inr (StringLookup None [])
      | Some m \<Rightarrow>
          if m \<le> 1 then Inl (ValueError ''If set, max_tokens must be greater than 1'')
          else Inr (StringLookup (Some m) []))"

definition new_IntegerLookup :: "nat option \<Rightarrow> error + 'a layer" where
  "new_IntegerLookup max_tokens =
     (case max_tokens of
        None \<Rightarrow> Inr (IntegerLookup None [])
      | Some m \<Rightarrow>
          if m \<le> 1 then Inl (ValueError ''If set, max_tokens must be greater than 1'')
          else Inr (IntegerLookup (Some m) []))"

definition learned :: "nat option \<Rightarrow> cell list \<Rightarrow> cell list" where
  "learned max_tokens tokens =
     (case max_tokens of
        None \<Rightarrow> tokens
      | Some m \<Rightarrow> if m = 0 then tokens else take (m - 1) tokens)"

text \<open>\<^verbatim>\<open>layer.adapt(dataset)\<close> stores what the layer learned from the dataset in the layer.\<close>

fun adapt :: "'a env \<Rightarrow> 'a layer \<Rightarrow> dataset \<Rightarrow> error + 'a layer" where
  "adapt env (Normalization old) ds =
     and_then (layer_adapt env (Normalization old) ds) (\<lambda>s. Inr (Normalization (Some s)))"
| "adapt env (StringLookup max_tokens old) ds =
     and_then (token_ranking env (StringLookup max_tokens old) ds) (\<lambda>tokens.
     Inr (StringLookup max_tokens (learned max_tokens tokens)))"
| "adapt env (IntegerLookup max_tokens old) ds =
     and_then (token_ranking env (IntegerLookup max_tokens old) ds) (\<lambda>tokens.
     Inr (IntegerLookup max_tokens (learned max_tokens tokens)))"
| "adapt env layer ds = Inl (AttributeError ''adapt'')"

fun vocabulary_size :: "'a layer \<Rightarrow> error + nat" where
  "vocabulary_size (StringLookup max_tokens vocabulary) = Inr (Suc (length vocabulary))"
| "vocabulary_size (IntegerLookup max_tokens vocabulary) = Inr (Suc (length vocabulary))"
| "vocabulary_size layer = Inl (AttributeError ''vocabulary_size'')"

fun position :: "cell \<Rightarrow> cell list \<Rightarrow> nat option" where
  "position v [] = None"
| "position v (x # xs) = (if x = v then Some 0 else map_option Suc (position v xs))"

definition lookup_index :: "cell list \<Rightarrow> cell \<Rightarrow> nat" where
  "lookup_index vocabulary v = (case position v vocabulary of None \<Rightarrow> 0 | Some i \<Rightarrow> Suc i)"

fun is_string :: "cell \<Rightarrow> bool" where
  "is_string (StrV s) = True"
| "is_string (IntV i) = False"

fun is_integer :: "cell \<Rightarrow> bool" where
  "is_integer (IntV i) = True"
| "is_integer (StrV s) = False"

fun look_up :: "'a layer \<Rightarrow> cell list \<Rightarrow> error + nat list" where
  "look_up (StringLookup max_tokens vocabulary) vs =
     (if list_all is_string vs then Inr (map (lookup_index vocabulary) vs)
      else Inl (TypeError ''StringLookup expects strings''))"
| "look_up (IntegerLookup max_tokens vocabulary) vs =
     (if list_all is_integer vs then Inr (map (lookup_index vocabulary) vs)
      else Inl (TypeError ''IntegerLookup expects integers''))"
| "look_up layer vs = Inl (TypeError ''not a lookup layer'')"

definition multi_hot :: "nat \<Rightarrow> nat list \<Rightarrow> nat list" where
  "multi_hot num_tokens indices = map (\<lambda>i. if i \<in> set indices then 1 else 0) [0..<num_tokens]"

definition encode :: "nat \<Rightarrow> nat list \<Rightarrow> error + nat list" where
  "encode num_tokens indices =
     (if list_all (\<lambda>i. i < num_tokens) indices then Inr (multi_hot num_tokens indices)
      else Inl (OtherError ''Input values must be in the range 0 <= values < num_tokens''))"

text \<open>The value of \<^verbatim>\<open>encoder(index(feature))\<close> for an eager \<open>feature\<close>.\<close>

fun category_value :: "'a tensor \<Rightarrow> error + nat list" where
  "category_value (Call (CategoryEncoding num_tokens) (Call index (Eager vs))) =
     and_then (look_up index vs) (encode num_tokens)"
| "category_value t = Inl (TypeError ''not a category encoding of an eager tensor'')"

section \<open>The preprocessing helpers\<close>

text \<open>
  \<^verbatim>\<open>
  def get_normalization_layer(name, dataset):
    normalizer = preprocessing.Normalization(axis=None)
    feature_ds = dataset.map(lambda x, y: x[name])
    normalizer.adapt(feature_ds)
    return normalizer
  \<close>
\<close>

definition get_normalization_layer :: "'a env \<Rightarrow> string \<Rightarrow> dataset \<Rightarrow> error + 'a layer" where
  "get_normalization_layer env name dataset =
     (let normalizer = Normalization None in
      and_then (map_feature name dataset) (\<lambda>feature_ds.
      and_then (adapt env normalizer feature_ds) (\<lambda>normalizer.
      Inr normalizer)))"

text \<open>
  \<^verbatim>\<open>
  def get_category_encoding_layer(name, dataset, dtype, max_tokens=None):
    if dtype == 'string':
      index = preprocessing.StringLookup(max_tokens=max_tokens)
    else:
      index = preprocessing.IntegerLookup(max_tokens=max_tokens)
    feature_ds = dataset.map(lambda x, y: x[name])
    index.adapt(feature_ds)
    encoder = preprocessing.CategoryEncoding(num_tokens=index.vocabulary_size())
    return lambda feature: encoder(index(feature))
  \<close>
\<close>

definition get_category_encoding_layer ::
  "'a env \<Rightarrow> string \<Rightarrow> dataset \<Rightarrow> string \<Rightarrow> nat option \<Rightarrow> error + ('a tensor \<Rightarrow> 'a tensor)" where
  "get_category_encoding_layer env name dataset dtype max_tokens =
     and_then (if dtype = ''string'' then new_StringLookup max_tokens
               else new_IntegerLookup max_tokens) (\<lambda>index.
     and_then (map_feature name dataset) (\<lambda>feature_ds.
     and_then (adapt env index feature_ds) (\<lambda>index.
     and_then (vocabulary_size index) (\<lambda>num_tokens.
     let encoder = CategoryEncoding num_tokens in
     Inr (\<lambda>feature. Call encoder (Call index feature))))))"

section \<open>The notebook's variables\<close>

text \<open>
  The global variables that one statement sets and a later one reads, each unset until
  its assignment; the dataframe objects; and the saved models on disk. Reading an unset
  variable raises \<open>NameError\<close>.
\<close>

record 'a globals =
  heap :: store
  files :: "string \<Rightarrow> 'a option"
  v_dataframe :: "ref option"
  v_train :: "ref option"
  v_val :: "ref option"
  v_test :: "ref option"
  v_batch_size :: "nat option"
  v_train_ds :: "dataset option"
  v_val_ds :: "dataset option"
  v_test_ds :: "dataset option"
  v_train_features :: "(string \<times> cell list) list option"
  v_label_batch :: "cell list option"
  v_all_inputs :: "'a tensor list option"
  v_encoded_features :: "'a tensor list option"
  v_model :: "'a model option"
  v_reloaded_model :: "'a model option"
  v_predictions :: "'a option"

definition start :: "(string \<Rightarrow> 'a option) \<Rightarrow> 'a globals" where
  "start fs =
     \<lparr>heap = \<lparr>frames = (\<lambda>r. None), next_ref = 0\<rparr>, files = fs,
      v_dataframe = None, v_train = None, v_val = None, v_test = None, v_batch_size = None,
      v_train_ds = None, v_val_ds = None, v_test_ds = None, v_train_features = None,
      v_label_batch = None, v_all_inputs = None, v_encoded_features = None,
      v_model = None, v_reloaded_model = None, v_predictions = None\<rparr>"

definition var :: "string \<Rightarrow> 'b option \<Rightarrow> error + 'b" where
  "var name v = (case v of None \<Rightarrow> Inl (NameError name) | Some x \<Rightarrow> Inr x)"

definition frame_of :: "string \<Rightarrow> ref option \<Rightarrow> 'a globals \<Rightarrow> error + dataframe" where
  "frame_of name v g = and_then (var name v) (\<lambda>r. deref r (heap g))"

definition dict_get :: "(string \<times> 'b) list \<Rightarrow> string \<Rightarrow> error + 'b" where
  "dict_get d k = (case map_of d k of None \<Rightarrow> Inl (KeyError [k]) | Some x \<Rightarrow> Inr x)"

text \<open>
  \<^verbatim>\<open>train_test_split(dataframe, test_size=0.2)\<close>: two new dataframes, the rows at the
  positions the shuffle picked.
\<close>

definition train_test_split ::
  "'a env \<Rightarrow> ref \<Rightarrow> real \<Rightarrow> store \<Rightarrow> error + (ref \<times> ref) \<times> store" where
  "train_test_split env r test_size st =
     and_then (deref r st) (\<lambda>df.
     and_then (sklearn_split env test_size (nrows df)) (\<lambda>(train_pos, test_pos).
     and_then (iloc df train_pos) (\<lambda>train.
     and_then (iloc df test_pos) (\<lambda>test.
     (case new_frame train st of (r1, st1) \<Rightarrow>
      case new_frame test st1 of (r2, st2) \<Rightarrow> Inr ((r1, r2), st2))))))"

section \<open>The script\<close>

text \<open>
  The statements of the notebook's code cells, top to bottom. A \<open>for\<close> loop over a
  literal list is one statement per element. The three demonstration cells, the body of
  each feature loop and the five lines that build the model are one statement each: their
  intermediate variables are read nowhere else. Displayed values and \<open>print\<close> leave no
  trace beyond the reads they make.
\<close>

datatype stmt =
    GetFile | ReadCsv | Head
  | MakeTarget | DropUnused
  | SplitTest | SplitVal | PrintLens
  | SetBatchSize nat | WrapTrainDefault
  | TakeOne | PrintBatch
  | DemoNormalization | DemoStringCategory | DemoIntCategory
  | WrapTrain | WrapVal | WrapTest
  | InitFeatureLists | NumericFeature string | AgeFeature | CategoricalFeature string
  | BuildModel | Compile | PlotModel
  | Fit | Evaluate
  | Save | LoadModel
  | Predict | PrintProbability

definition dataset_url :: string where
  "dataset_url = ''http://storage.googleapis.com/download.tensorflow.org/data/petfinder-mini.zip''"

definition csv_file :: string where
  "csv_file = ''gs://cloud-training/mlongcp/v3.0_MLonGC/toy_data/petfinder-mini_toy.csv''"

definition categorical_cols :: "string list" where
  "categorical_cols = [''Type'', ''Color1'', ''Color2'', ''Gender'', ''MaturitySize'',
                       ''FurLength'', ''Vaccinated'', ''Sterilized'', ''Health'', ''Breed1'']"

definition sample :: "(string \<times> cell) list" where
  "sample = [(''Type'', StrV ''Cat''), (''Age'', IntV 3), (''Breed1'', StrV ''Tabby''),
             (''Gender'', StrV ''Male''), (''Color1'', StrV ''Black''), (''Color2'', StrV ''White''),
             (''MaturitySize'', StrV ''Small''), (''FurLength'', StrV ''Short''),
             (''Vaccinated'', StrV ''No''), (''Sterilized'', StrV ''No''),
             (''Health'', StrV ''Healthy''), (''Fee'', IntV 100), (''PhotoAmt'', IntV 2)]"

text \<open>The code cells, and the notebook as their sequence.\<close>

definition load_cell :: "stmt list" where
  "load_cell = [GetFile, ReadCsv]"

definition head_cell :: "stmt list" where
  "head_cell = [Head]"

definition target_cell :: "stmt list" where
  "target_cell = [MakeTarget, DropUnused]"

definition split_cell :: "stmt list" where
  "split_cell = [SplitTest, SplitVal, PrintLens]"

definition small_batch_cell :: "stmt list" where
  "small_batch_cell = [SetBatchSize 5, WrapTrainDefault]"

definition first_batch_cell :: "stmt list" where
  "first_batch_cell = [TakeOne, PrintBatch]"

definition demo_cells :: "stmt list" where
  "demo_cells = [DemoNormalization, DemoStringCategory, DemoIntCategory]"

definition pipeline_cell :: "stmt list" where
  "pipeline_cell = [SetBatchSize 256, WrapTrain, WrapVal, WrapTest]"

definition numeric_cell :: "stmt list" where
  "numeric_cell = InitFeatureLists # map NumericFeature [''PhotoAmt'', ''Fee'']"

definition age_cell :: "stmt list" where
  "age_cell = [AgeFeature]"

definition categorical_cell :: "stmt list" where
  "categorical_cell = map CategoricalFeature categorical_cols"

definition model_cell :: "stmt list" where
  "model_cell = [BuildModel, Compile]"

definition plot_cell :: "stmt list" where
  "plot_cell = [PlotModel]"

definition fit_cell :: "stmt list" where
  "fit_cell = [Fit]"

definition evaluate_cell :: "stmt list" where
  "evaluate_cell = [Evaluate]"

definition save_cell :: "stmt list" where
  "save_cell = [Save, LoadModel]"

definition predict_cell :: "stmt list" where
  "predict_cell = [Predict, PrintProbability]"

definition notebook :: "stmt list" where
  "notebook =
     load_cell @ head_cell @ target_cell @ split_cell @ small_batch_cell @ first_batch_cell
     @ demo_cells @ pipeline_cell @ numeric_cell @ age_cell @ categorical_cell @ model_cell
     @ plot_cell @ fit_cell @ evaluate_cell @ save_cell @ predict_cell"

text \<open>Wrapping a split, and appending one encoded feature to the two lists.\<close>

definition wrap ::
  "string \<Rightarrow> ref option \<Rightarrow> bool \<Rightarrow> nat \<Rightarrow> 'a globals \<Rightarrow> error + dataset \<times> store" where
  "wrap name v shuffle batch_size g =
     and_then (var name v) (\<lambda>r.
     (case df_to_dataset r shuffle batch_size (heap g) of
        (Inl e, st) \<Rightarrow> Inl e
      | (Inr ds, st) \<Rightarrow> Inr (ds, st)))"

definition append_feature :: "'a tensor \<Rightarrow> 'a tensor \<Rightarrow> 'a globals \<Rightarrow> error + 'a globals" where
  "append_feature col encoded_col g =
     and_then (var ''all_inputs'' (v_all_inputs g)) (\<lambda>all_inputs.
     and_then (var ''encoded_features'' (v_encoded_features g)) (\<lambda>encoded_features.
     Inr (g\<lparr>v_all_inputs := Some (all_inputs @ [col]),
            v_encoded_features := Some (encoded_features @ [encoded_col])\<rparr>)))"

fun exec :: "'a env \<Rightarrow> stmt \<Rightarrow> 'a globals \<Rightarrow> error + 'a globals" where
  "exec env GetFile g =
     and_then (keras_get_file env ''petfinder_mini.zip'' dataset_url) (\<lambda>u. Inr g)"
| "exec env ReadCsv g =
     and_then (pd_read_csv env csv_file) (\<lambda>df.
     (case new_frame df (heap g) of (r, st) \<Rightarrow> Inr (g\<lparr>heap := st, v_dataframe := Some r\<rparr>)))"
| "exec env Head g =
     and_then (frame_of ''dataframe'' (v_dataframe g) g) (\<lambda>df. Inr g)"
| "exec env MakeTarget g =
     and_then (var ''dataframe'' (v_dataframe g)) (\<lambda>r.
     and_then (deref r (heap g)) (\<lambda>df.
     and_then (getitem df ''AdoptionSpeed'') (\<lambda>speed.
     and_then (setitem df ''target'' (np_where_eq speed (IntV 4) (IntV 0) (IntV 1))) (\<lambda>df'.
     Inr (g\<lparr>heap := (heap g)\<lparr>frames := (frames (heap g))(r \<mapsto> df')\<rparr>\<rparr>)))))"
| "exec env DropUnused g =
     and_then (frame_of ''dataframe'' (v_dataframe g) g) (\<lambda>df.
     and_then (drop_columns df [''AdoptionSpeed'', ''Description'']) (\<lambda>df'.
     (case new_frame df' (heap g) of (r, st) \<Rightarrow> Inr (g\<lparr>heap := st, v_dataframe := Some r\<rparr>))))"
| "exec env SplitTest g =
     and_then (var ''dataframe'' (v_dataframe g)) (\<lambda>r.
     and_then (train_test_split env r 0.2 (heap g)) (\<lambda>((train, test), st).
     Inr (g\<lparr>heap := st, v_train := Some train, v_test := Some test\<rparr>)))"
| "exec env SplitVal g =
     and_then (var ''train'' (v_train g)) (\<lambda>r.
     and_then (train_test_split env r 0.2 (heap g)) (\<lambda>((train, val), st).
     Inr (g\<lparr>heap := st, v_train := Some train, v_val := Some val\<rparr>)))"
| "exec env PrintLens g =
     and_then (frame_of ''train'' (v_train g) g) (\<lambda>train.
     and_then (frame_of ''val'' (v_val g) g) (\<lambda>val.
     and_then (frame_of ''test'' (v_test g) g) (\<lambda>test. Inr g)))"
| "exec env (SetBatchSize n) g = Inr (g\<lparr>v_batch_size := Some n\<rparr>)"
| "exec env WrapTrainDefault g =
     and_then (wrap ''train'' (v_train g) True 32 g) (\<lambda>(ds, st).
     Inr (g\<lparr>heap := st, v_train_ds := Some ds\<rparr>))"
| "exec env TakeOne g =
     and_then (var ''train_ds'' (v_train_ds g)) (\<lambda>train_ds.
     and_then (dataset_iter env (Take 1 train_ds)) (\<lambda>batches.
     (case batches of
        [(train_features, label_batch)] \<Rightarrow>
          Inr (g\<lparr>v_train_features := Some train_features, v_label_batch := Some label_batch\<rparr>)
      | _ \<Rightarrow> Inl (ValueError ''wrong number of values to unpack''))))"
| "exec env PrintBatch g =
     and_then (var ''train_features'' (v_train_features g)) (\<lambda>train_features.
     and_then (dict_get train_features ''Age'') (\<lambda>ages.
     and_then (var ''label_batch'' (v_label_batch g)) (\<lambda>label_batch. Inr g)))"
| "exec env DemoNormalization g =
     and_then (var ''train_features'' (v_train_features g)) (\<lambda>train_features.
     and_then (dict_get train_features ''PhotoAmt'') (\<lambda>photo_count_col.
     and_then (var ''train_ds'' (v_train_ds g)) (\<lambda>train_ds.
     and_then (get_normalization_layer env ''PhotoAmt'' train_ds) (\<lambda>layer.
     and_then (eager_value env (Call layer (Eager photo_count_col))) (\<lambda>u. Inr g)))))"
| "exec env DemoStringCategory g =
     and_then (var ''train_features'' (v_train_features g)) (\<lambda>train_features.
     and_then (dict_get train_features ''Type'') (\<lambda>type_col.
     and_then (var ''train_ds'' (v_train_ds g)) (\<lambda>train_ds.
     and_then (get_category_encoding_layer env ''Type'' train_ds ''string'' None) (\<lambda>layer.
     and_then (category_value (layer (Eager type_col))) (\<lambda>encoded. Inr g)))))"
| "exec env DemoIntCategory g =
     and_then (var ''train_features'' (v_train_features g)) (\<lambda>train_features.
     and_then (dict_get train_features ''Age'') (\<lambda>type_col.
     and_then (var ''train_ds'' (v_train_ds g)) (\<lambda>train_ds.
     and_then (get_category_encoding_layer env ''Age'' train_ds ''int64'' (Some 5)) (\<lambda>category_encoding_layer.
     and_then (category_value (category_encoding_layer (Eager type_col))) (\<lambda>encoded. Inr g)))))"
| "exec env WrapTrain g =
     and_then (var ''batch_size'' (v_batch_size g)) (\<lambda>batch_size.
     and_then (wrap ''train'' (v_train g) True batch_size g) (\<lambda>(ds, st).
     Inr (g\<lparr>heap := st, v_train_ds := Some ds\<rparr>)))"
| "exec env WrapVal g =
     and_then (var ''batch_size'' (v_batch_size g)) (\<lambda>batch_size.
     and_then (wrap ''val'' (v_val g) False batch_size g) (\<lambda>(ds, st).
     Inr (g\<lparr>heap := st, v_val_ds := Some ds\<rparr>)))"
| "exec env WrapTest g =
     and_then (var ''batch_size'' (v_batch_size g)) (\<lambda>batch_size.
     and_then (wrap ''test'' (v_test g) False batch_size g) (\<lambda>(ds, st).
     Inr (g\<lparr>heap := st, v_test_ds := Some ds\<rparr>)))"
| "exec env InitFeatureLists g = Inr (g\<lparr>v_all_inputs := Some [], v_encoded_features := Some []\<rparr>)"
| "exec env (NumericFeature header) g =
     (let numeric_col = Input header DFloat32 in
      and_then (var ''train_ds'' (v_train_ds g)) (\<lambda>train_ds.
      and_then (get_normalization_layer env header train_ds) (\<lambda>normalization_layer.
      let encoded_numeric_col = Call normalization_layer numeric_col in
      append_feature numeric_col encoded_numeric_col g)))"
| "exec env AgeFeature g =
     (let age_col = Input ''Age'' DInt64 in
      and_then (var ''train_ds'' (v_train_ds g)) (\<lambda>train_ds.
      and_then (get_category_encoding_layer env ''Age'' train_ds ''int64'' (Some 5)) (\<lambda>encoding_layer.
      let encoded_age_col = encoding_layer age_col in
      append_feature age_col encoded_age_col g)))"
| "exec env (CategoricalFeature header) g =
     (let categorical_col = Input header DString in
      and_then (var ''train_ds'' (v_train_ds g)) (\<lambda>train_ds.
      and_then (get_category_encoding_layer env header train_ds ''string'' (Some 5)) (\<lambda>encoding_layer.
      let encoded_categorical_col = encoding_layer categorical_col in
      append_feature categorical_col encoded_categorical_col g)))"
| "exec env BuildModel g =
     and_then (var ''encoded_features'' (v_encoded_features g)) (\<lambda>encoded_features.
     let all_features = Concatenate encoded_features;
         x = Call (Dense 32 (Some ''relu'')) all_features;
         x = Call (Dropout 0.5) x;
         output = Call (Dense 1 None) x
     in and_then (var ''all_inputs'' (v_all_inputs g)) (\<lambda>all_inputs.
        Inr (g\<lparr>v_model := Some \<lparr>model_inputs = all_inputs, model_output = output,
                                  compile_args = None, trained = None\<rparr>\<rparr>)))"
| "exec env Compile g =
     and_then (var ''model'' (v_model g)) (\<lambda>model.
     Inr (g\<lparr>v_model := Some (model\<lparr>compile_args :=
       Some (''adam'', ''BinaryCrossentropy(from_logits=True)'', [''accuracy''])\<rparr>)\<rparr>))"
| "exec env PlotModel g =
     and_then (var ''model'' (v_model g)) (\<lambda>model.
     and_then (keras_plot_model env model) (\<lambda>u. Inr g))"
| "exec env Fit g =
     and_then (var ''model'' (v_model g)) (\<lambda>model.
     and_then (var ''train_ds'' (v_train_ds g)) (\<lambda>train_ds.
     and_then (var ''val_ds'' (v_val_ds g)) (\<lambda>val_ds.
     and_then (model_fit env model train_ds 10 val_ds) (\<lambda>w.
     Inr (g\<lparr>v_model := Some (model\<lparr>trained := Some w\<rparr>)\<rparr>)))))"
| "exec env Evaluate g =
     and_then (var ''model'' (v_model g)) (\<lambda>model.
     and_then (var ''test_ds'' (v_test_ds g)) (\<lambda>test_ds.
     and_then (model_evaluate env model test_ds) (\<lambda>(loss, accuracy). Inr g)))"
| "exec env Save g =
     and_then (var ''model'' (v_model g)) (\<lambda>model.
     and_then (model_save env model) (\<lambda>saved.
     Inr (g\<lparr>files := (files g)(''my_pet_classifier'' \<mapsto> saved)\<rparr>)))"
| "exec env LoadModel g =
     (case files g ''my_pet_classifier'' of
        None \<Rightarrow> Inl (OtherError ''No file or directory found at my_pet_classifier'')
      | Some saved \<Rightarrow>
          and_then (keras_load_model env saved) (\<lambda>reloaded_model.
          Inr (g\<lparr>v_reloaded_model := Some reloaded_model\<rparr>)))"
| "exec env Predict g =
     (let input_dict = map (\<lambda>(name, value). (name, [value])) sample in
      and_then (var ''reloaded_model'' (v_reloaded_model g)) (\<lambda>reloaded_model.
      and_then (model_predict env reloaded_model input_dict) (\<lambda>predictions.
      Inr (g\<lparr>v_predictions := Some predictions\<rparr>))))"
| "exec env PrintProbability g =
     and_then (var ''predictions'' (v_predictions g)) (\<lambda>predictions.
     and_then (nn_sigmoid env predictions) (\<lambda>prob. Inr g))"

text \<open>
  Running the script: the statements in order, stopping at the first that raises. The
  result is the statements executed (the failing one last) and the outcome.
\<close>

fun run :: "'a env \<Rightarrow> stmt list \<Rightarrow> 'a globals \<Rightarrow> stmt list \<times> (error + 'a globals)" where
  "run env [] g = ([], Inr g)"
| "run env (s # ss) g =
     (case exec env s g of
        Inl e \<Rightarrow> ([s], Inl e)
      | Inr g' \<Rightarrow> (case run env ss g' of (executed, outcome) \<Rightarrow> (s # executed, outcome)))"

section \<open>Vocabulary of the properties\<close>

text \<open>The steps of the tutorial a statement belongs to, and the steps of a statement list
  in order, a run of statements of one step counted once.\<close>

datatype step =
    LoadCsv | SplitFrames | WrapSplit | BuildLayers | BuildClassifier
  | Train | EvaluateModel | SaveModel | ReloadModel | Inference

fun step_of :: "stmt \<Rightarrow> step option" where
  "step_of ReadCsv = Some LoadCsv"
| "step_of SplitTest = Some SplitFrames"
| "step_of SplitVal = Some SplitFrames"
| "step_of WrapTrainDefault = Some WrapSplit"
| "step_of WrapTrain = Some WrapSplit"
| "step_of WrapVal = Some WrapSplit"
| "step_of WrapTest = Some WrapSplit"
| "step_of DemoNormalization = Some BuildLayers"
| "step_of DemoStringCategory = Some BuildLayers"
| "step_of DemoIntCategory = Some BuildLayers"
| "step_of (NumericFeature header) = Some BuildLayers"
| "step_of AgeFeature = Some BuildLayers"
| "step_of (CategoricalFeature header) = Some BuildLayers"
| "step_of BuildModel = Some BuildClassifier"
| "step_of Compile = Some BuildClassifier"
| "step_of Fit = Some Train"
| "step_of Evaluate = Some EvaluateModel"
| "step_of Save = Some SaveModel"
| "step_of LoadModel = Some ReloadModel"
| "step_of Predict = Some Inference"
| "step_of s = None"

definition steps :: "stmt list \<Rightarrow> step list" where
  "steps ss = remdups_adj (List.map_filter step_of ss)"

text \<open>The dataframe a variable is bound to, and the feature columns of a dataframe: all but
  \<open>target\<close>.\<close>

definition bound_frame :: "'a globals \<Rightarrow> ref option \<Rightarrow> dataframe option" where
  "bound_frame g v = (case v of None \<Rightarrow> None | Some r \<Rightarrow> frames (heap g) r)"

definition features_of :: "dataframe \<Rightarrow> (string \<times> cell list) list" where
  "features_of df = filter (\<lambda>(k, c). k \<noteq> ''target'') (cols df)"

text \<open>References are valid when they point below the next free one.\<close>

definition ref_ok :: "store \<Rightarrow> ref option \<Rightarrow> bool" where
  "ref_ok st v = (case v of None \<Rightarrow> True | Some r \<Rightarrow> r < next_ref st)"

definition valid_refs :: "'a globals \<Rightarrow> bool" where
  "valid_refs g =
     (ref_ok (heap g) (v_dataframe g) \<and> ref_ok (heap g) (v_train g)
      \<and> ref_ok (heap g) (v_val g) \<and> ref_ok (heap g) (v_test g))"

text \<open>The part of the state that holds dataframes and datasets, and the statements that
  change it.\<close>

definition frame_state ::
  "'a globals \<Rightarrow> store \<times> ref option \<times> ref option \<times> ref option \<times> ref option
     \<times> dataset option \<times> dataset option \<times> dataset option" where
  "frame_state g =
     (heap g, v_dataframe g, v_train g, v_val g, v_test g, v_train_ds g, v_val_ds g, v_test_ds g)"

fun touches_frames :: "stmt \<Rightarrow> bool" where
  "touches_frames ReadCsv = True"
| "touches_frames MakeTarget = True"
| "touches_frames DropUnused = True"
| "touches_frames SplitTest = True"
| "touches_frames SplitVal = True"
| "touches_frames WrapTrainDefault = True"
| "touches_frames WrapTrain = True"
| "touches_frames WrapVal = True"
| "touches_frames WrapTest = True"
| "touches_frames s = False"

text \<open>A dataframe variable, or a dataset, without the two columns the notebook drops.\<close>

definition lacks_unused :: "string list \<Rightarrow> bool" where
  "lacks_unused names = (''AdoptionSpeed'' \<notin> set names \<and> ''Description'' \<notin> set names)"

definition frame_lacks :: "'a globals \<Rightarrow> ref option \<Rightarrow> bool" where
  "frame_lacks g v =
     (case v of None \<Rightarrow> True
      | Some r \<Rightarrow> (case frames (heap g) r of None \<Rightarrow> False | Some df \<Rightarrow> lacks_unused (columns df)))"

definition dataset_lacks :: "dataset option \<Rightarrow> bool" where
  "dataset_lacks v =
     (case v of None \<Rightarrow> True
      | Some ds \<Rightarrow> (case feature_keys ds of None \<Rightarrow> True | Some keys \<Rightarrow> lacks_unused keys))"

definition unused_columns_gone :: "'a globals \<Rightarrow> bool" where
  "unused_columns_gone g =
     (frame_lacks g (v_dataframe g) \<and> frame_lacks g (v_train g) \<and> frame_lacks g (v_val g)
      \<and> frame_lacks g (v_test g) \<and> dataset_lacks (v_train_ds g) \<and> dataset_lacks (v_val_ds g)
      \<and> dataset_lacks (v_test_ds g))"

text \<open>How an encoded feature of the model is made: from which input, by which layers.\<close>

datatype semantic_type = Numeric | IntegerCategorical | StringCategorical

fun encoding_of :: "'a tensor \<Rightarrow> (string \<times> dtype \<times> semantic_type) option" where
  "encoding_of (Call (Normalization s) (Input name d)) = Some (name, d, Numeric)"
| "encoding_of (Call (CategoryEncoding n) (Call (IntegerLookup m s) (Input name d))) =
     Some (name, d, IntegerCategorical)"
| "encoding_of (Call (CategoryEncoding n) (Call (StringLookup m s) (Input name d))) =
     Some (name, d, StringCategorical)"
| "encoding_of t = None"

text \<open>
  The adapted layers behind an encoded feature: a numeric feature goes through the
  \<open>Normalization\<close> layer holding the statistics learned from that feature of the dataset; a
  categorical one through the lookup layer, built with \<open>max_tokens=5\<close>, holding the four
  most frequent tokens of that feature of the dataset, and through a \<open>CategoryEncoding\<close> as
  wide as that lookup's vocabulary size.
\<close>

fun encoded_as :: "'a env \<Rightarrow> dataset \<Rightarrow> string \<times> semantic_type \<Rightarrow> 'a tensor \<Rightarrow> bool" where
  "encoded_as env ds (name, Numeric) t =
     (case layer_adapt env (Normalization None) (MapFeature name ds) of
        Inl e \<Rightarrow> False
      | Inr s \<Rightarrow> t = Call (Normalization (Some s)) (Input name DFloat32))"
| "encoded_as env ds (name, IntegerCategorical) t =
     (case token_ranking env (IntegerLookup (Some 5) []) (MapFeature name ds) of
        Inl e \<Rightarrow> False
      | Inr tokens \<Rightarrow>
          t = Call (CategoryEncoding (Suc (length (take 4 tokens))))
                (Call (IntegerLookup (Some 5) (take 4 tokens)) (Input name DInt64)))"
| "encoded_as env ds (name, StringCategorical) t =
     (case token_ranking env (StringLookup (Some 5) []) (MapFeature name ds) of
        Inl e \<Rightarrow> False
      | Inr tokens \<Rightarrow>
          t = Call (CategoryEncoding (Suc (length (take 4 tokens))))
                (Call (StringLookup (Some 5) (take 4 tokens)) (Input name DString)))"




section \<open>An example run\<close>

text \<open>A three-row table with the columns of the PetFinder CSV, and libraries that succeed on it.\<close>

definition example_csv :: dataframe where
  "example_csv =
     \<lparr>nrows = 3,
      cols = [(''Type'', [StrV ''Cat'', StrV ''Dog'', StrV ''Cat'']),
              (''Age'', [IntV 3, IntV 1, IntV 4]),
              (''Breed1'', [StrV ''Tabby'', StrV ''Mixed Breed'', StrV ''Tabby'']),
              (''Gender'', [StrV ''Male'', StrV ''Female'', StrV ''Male'']),
              (''Color1'', [StrV ''Black'', StrV ''Brown'', StrV ''White'']),
              (''Color2'', [StrV ''White'', StrV ''White'', StrV ''No Color'']),
              (''MaturitySize'', [StrV ''Small'', StrV ''Medium'', StrV ''Small'']),
              (''FurLength'', [StrV ''Short'', StrV ''Medium'', StrV ''Short'']),
              (''Vaccinated'', [StrV ''No'', StrV ''Yes'', StrV ''No'']),
              (''Sterilized'', [StrV ''No'', StrV ''No'', StrV ''Yes'']),
              (''Health'', [StrV ''Healthy'', StrV ''Healthy'', StrV ''Minor Injury'']),
              (''Fee'', [IntV 100, IntV 0, IntV 50]),
              (''Description'', [StrV ''quiet'', StrV ''playful'', StrV ''shy'']),
              (''PhotoAmt'', [IntV 2, IntV 5, IntV 1]),
              (''AdoptionSpeed'', [IntV 2, IntV 4, IntV 0])]\<rparr>"

fun slices :: "dataset \<Rightarrow> (string \<times> cell list) list" where
  "slices (FromTensorSlices d l) = d"
| "slices (Shuffle n ds) = slices ds"
| "slices (Batch n ds) = slices ds"
| "slices (Prefetch n ds) = slices ds"
| "slices (Take n ds) = slices ds"
| "slices (MapFeature name ds) = slices ds"

fun mapped_column :: "dataset \<Rightarrow> cell list" where
  "mapped_column (MapFeature name ds) = (case map_of (slices ds) name of None \<Rightarrow> [] | Some c \<Rightarrow> c)"
| "mapped_column ds = []"

definition example_env :: "nat env" where
  "example_env =
     \<lparr>keras_get_file = (\<lambda>fname origin. Inr ()),
      pd_read_csv = (\<lambda>path. if path = csv_file then Inr example_csv
                             else Inl (OtherError ''No such file'')),
      sklearn_split = (\<lambda>test_size n. if n = 3 then Inr ([2, 0], [1])
                                       else if n = 2 then Inr ([1], [0])
                                       else Inl (ValueError ''the resulting train set will be empty'')),
      dataset_iter = (\<lambda>ds. Inr [([(''Type'', [StrV ''Cat'']), (''Age'', [IntV 3]),
                                    (''PhotoAmt'', [IntV 2])], [IntV 1])]),
      layer_adapt = (\<lambda>layer ds. Inr 0),
      token_ranking = (\<lambda>layer ds. Inr (remdups (mapped_column ds))),
      eager_value = (\<lambda>t. Inr ()),
      keras_plot_model = (\<lambda>m. Inr ()),
      model_fit = (\<lambda>m train_ds epochs val_ds. Inr 1),
      model_evaluate = (\<lambda>m test_ds. Inr (2, 3)),
      model_save = (\<lambda>m. Inr 4),
      keras_load_model = (\<lambda>saved. Inr \<lparr>model_inputs = [], model_output = Concatenate [],
                                           compile_args = None, trained = Some saved\<rparr>),
      model_predict = (\<lambda>m input_dict. Inr 5),
      nn_sigmoid = (\<lambda>p. Inr 6)\<rparr>"


definition no_files :: "string \<Rightarrow> nat option" where
  "no_files = (\<lambda>path. None)"



text \<open>A store with one dataframe that has a \<open>target\<close> column.\<close>

definition example_frame :: dataframe where
  "example_frame = \<lparr>nrows = 2, cols = [(''Fee'', [IntV 0, IntV 50]), (''target'', [IntV 1, IntV 0])]\<rparr>"

definition example_store :: store where
  "example_store = \<lparr>frames = (\<lambda>r. if r = 0 then Some example_frame else None), next_ref = 1\<rparr>"

section \<open>Basic facts\<close>

lemma and_then_Inl [simp]: "and_then (Inl e) f = Inl e"
  by (simp add: and_then_def)

lemma and_then_Inr [simp]: "and_then (Inr x) f = f x"
  by (simp add: and_then_def)

lemma and_then_eq_Inr: "and_then m f = Inr y \<longleftrightarrow> (\<exists>x. m = Inr x \<and> f x = Inr y)"
  by (cases m) simp_all

lemma var_eq_Inr [simp]: "var name v = Inr x \<longleftrightarrow> v = Some x"
  by (cases v) (simp_all add: var_def)

lemma var_Some [simp]: "var name (Some x) = Inr x"
  by (simp add: var_def)

lemmas cells =
  load_cell_def head_cell_def target_cell_def split_cell_def small_batch_cell_def
  first_batch_cell_def demo_cells_def pipeline_cell_def numeric_cell_def age_cell_def
  categorical_cell_def model_cell_def plot_cell_def fit_cell_def evaluate_cell_def
  save_cell_def predict_cell_def categorical_cols_def

lemma notebook_statements:
  "notebook =
     [GetFile, ReadCsv, Head, MakeTarget, DropUnused, SplitTest, SplitVal, PrintLens,
      SetBatchSize 5, WrapTrainDefault, TakeOne, PrintBatch,
      DemoNormalization, DemoStringCategory, DemoIntCategory,
      SetBatchSize 256, WrapTrain, WrapVal, WrapTest,
      InitFeatureLists, NumericFeature ''PhotoAmt'', NumericFeature ''Fee'', AgeFeature,
      CategoricalFeature ''Type'', CategoricalFeature ''Color1'', CategoricalFeature ''Color2'',
      CategoricalFeature ''Gender'', CategoricalFeature ''MaturitySize'',
      CategoricalFeature ''FurLength'', CategoricalFeature ''Vaccinated'',
      CategoricalFeature ''Sterilized'', CategoricalFeature ''Health'', CategoricalFeature ''Breed1'',
      BuildModel, Compile, PlotModel, Fit, Evaluate, Save, LoadModel, Predict, PrintProbability]"
  by (simp add: notebook_def cells)

lemma steps_notebook:
  "steps notebook =
     [LoadCsv, SplitFrames, WrapSplit, BuildLayers, WrapSplit, BuildLayers, BuildClassifier,
      Train, EvaluateModel, SaveModel, ReloadModel, Inference]"
  by (simp add: notebook_statements steps_def List.map_filter_simps)

subsection \<open>Running statement lists\<close>

lemma fst_run_Cons:
  "fst (run env (s # ss) g) =
     (case exec env s g of Inl e \<Rightarrow> [s] | Inr g' \<Rightarrow> s # fst (run env ss g'))"
  by (simp split: sum.splits prod.splits)

lemma snd_run_Cons:
  "snd (run env (s # ss) g) =
     (case exec env s g of Inl e \<Rightarrow> Inl e | Inr g' \<Rightarrow> snd (run env ss g'))"
  by (simp split: sum.splits prod.splits)

lemma run_Nil [simp]: "fst (run env [] g) = []" "snd (run env [] g) = Inr g"
  by simp_all

declare run.simps [simp del]

lemma run_ok_Cons:
  "snd (run env (s # ss) g) = Inr g'' \<longleftrightarrow>
     (\<exists>g'. exec env s g = Inr g' \<and> snd (run env ss g') = Inr g'')"
  by (cases "exec env s g") (simp_all add: snd_run_Cons)

lemma run_ok_executed: "snd (run env ss g) = Inr g' \<Longrightarrow> fst (run env ss g) = ss"
proof (induction ss arbitrary: g)
  case Nil
  then show ?case by simp
next
  case (Cons s ss)
  then obtain g1 where "exec env s g = Inr g1" "snd (run env ss g1) = Inr g'"
    by (auto simp: run_ok_Cons)
  with Cons.IH show ?case by (simp add: fst_run_Cons)
qed

lemma run_ok_append:
  "snd (run env (xs @ ys) g) = Inr g'' \<longleftrightarrow>
     (\<exists>g'. snd (run env xs g) = Inr g' \<and> snd (run env ys g') = Inr g'')"
proof (induction xs arbitrary: g)
  case Nil
  then show ?case by simp
next
  case (Cons x xs)
  then show ?case by (cases "exec env x g") (simp_all add: snd_run_Cons)
qed



lemma example_run_ok: "\<not> isl (snd (run example_env notebook (start no_files)))"
  by code_simp

section \<open>The order of the steps\<close>

lemma last_cells_ok:
  assumes "snd (run env [Save, LoadModel, Predict, PrintProbability] g) = Inr g'"
  shows "\<exists>model saved reloaded p.
      v_model g = Some model \<and> model_save env model = Inr saved
      \<and> keras_load_model env saved = Inr reloaded \<and> v_reloaded_model g' = Some reloaded
      \<and> model_predict env reloaded (map (\<lambda>(name, value). (name, [value])) sample) = Inr p
      \<and> v_predictions g' = Some p"
  using assms
  by (auto simp: run_ok_Cons and_then_eq_Inr Let_def split: option.splits)

lemma notebook_split_last:
  "notebook = take 38 notebook @ [Save, LoadModel, Predict, PrintProbability]"
  by (simp add: notebook_statements)

text \<open>
  Claim C1, as amended. A run of the notebook that completes executed its statements in
  the order of the text. Its steps are: load the CSV, split, wrap the train split and
  build and adapt the demonstration layers on it, then wrap the three splits, build and
  adapt the layers of the model, build the dense classifier, train, evaluate, save,
  reload, predict. There is one \<open>predict\<close> statement; it runs on the model reloaded from
  what \<open>save\<close> wrote.
\<close>

theorem notebook_steps_in_order:
  assumes "snd (run env notebook g) = Inr g'"
  shows "fst (run env notebook g) = notebook
    \<and> steps (fst (run env notebook g)) =
        [LoadCsv, SplitFrames, WrapSplit, BuildLayers, WrapSplit, BuildLayers, BuildClassifier,
         Train, EvaluateModel, SaveModel, ReloadModel, Inference]
    \<and> length (filter (\<lambda>s. s = Predict) notebook) = 1
    \<and> (\<exists>model saved reloaded p.
          model_save env model = Inr saved \<and> keras_load_model env saved = Inr reloaded
          \<and> v_reloaded_model g' = Some reloaded
          \<and> model_predict env reloaded (map (\<lambda>(name, value). (name, [value])) sample) = Inr p
          \<and> v_predictions g' = Some p)"
proof -
  have executed: "fst (run env notebook g) = notebook"
    using assms by (rule run_ok_executed)
  have once: "length (filter (\<lambda>s. s = Predict) notebook) = 1"
    by (simp add: notebook_statements)
  from assms obtain g1 where
    "snd (run env [Save, LoadModel, Predict, PrintProbability] g1) = Inr g'"
    by (subst (asm) notebook_split_last) (auto simp: run_ok_append)
  from last_cells_ok [OF this] executed once steps_notebook show ?thesis by auto
qed

theorem notebook_steps_in_order_witness:
  "\<exists>g'. snd (run example_env notebook (start no_files)) = Inr g'
     \<and> fst (run example_env notebook (start no_files)) = notebook
     \<and> steps (fst (run example_env notebook (start no_files))) =
        [LoadCsv, SplitFrames, WrapSplit, BuildLayers, WrapSplit, BuildLayers, BuildClassifier,
         Train, EvaluateModel, SaveModel, ReloadModel, Inference]
     \<and> v_predictions g' = Some 5"
proof -
  from example_run_ok obtain g' where ok: "snd (run example_env notebook (start no_files)) = Inr g'"
    by (cases "snd (run example_env notebook (start no_files))") auto
  from notebook_steps_in_order [OF ok] obtain reloaded p where
    "fst (run example_env notebook (start no_files)) = notebook"
    "steps (fst (run example_env notebook (start no_files))) =
        [LoadCsv, SplitFrames, WrapSplit, BuildLayers, WrapSplit, BuildLayers, BuildClassifier,
         Train, EvaluateModel, SaveModel, ReloadModel, Inference]"
    "model_predict example_env reloaded (map (\<lambda>(name, value). (name, [value])) sample) = Inr p"
    "v_predictions g' = Some p"
    by blast
  moreover from this have "p = 5" by (simp add: example_env_def)
  ultimately show ?thesis using ok by blast
qed

text \<open>
  The claim as stated has every split wrapped before any preprocessing layer is built.
  The notebook builds and adapts its first layer (statement 12) before it wraps the
  validation split (statement 17), so its steps are not the ten of the claim in a row.
\<close>

theorem notebook_steps_counterexample:
  "steps notebook \<noteq>
     [LoadCsv, SplitFrames, WrapSplit, BuildLayers, BuildClassifier,
      Train, EvaluateModel, SaveModel, ReloadModel, Inference]
   \<and> notebook ! 12 = DemoNormalization \<and> step_of (notebook ! 12) = Some BuildLayers
   \<and> notebook ! 17 = WrapVal \<and> step_of (notebook ! 17) = Some WrapSplit"
  by (simp add: steps_notebook) (simp add: notebook_statements)

section \<open>Wrapping a dataframe\<close>

lemma df_to_dataset_ok:
  assumes "frames st r = Some df" and "map_of (cols df) ''target'' = Some labels"
  shows "df_to_dataset r shuffle batch_size st =
    (Inr (Prefetch batch_size (Batch batch_size
       (if shuffle then Shuffle (nrows df) (FromTensorSlices (features_of df) labels)
        else FromTensorSlices (features_of df) labels))),
     st\<lparr>frames := (frames st)(next_ref st \<mapsto> df\<lparr>cols := features_of df\<rparr>),
        next_ref := Suc (next_ref st)\<rparr>)"
  using assms
  by (simp add: df_to_dataset_def frame_copy_def frame_pop_def deref_def new_frame_def
      getitem_def features_of_def Let_def)

lemma df_to_dataset_no_target:
  assumes "frames st r = Some df" and "map_of (cols df) ''target'' = None"
  shows "df_to_dataset r shuffle batch_size st =
    (Inl (KeyError [''target'']),
     st\<lparr>frames := (frames st)(next_ref st \<mapsto> df), next_ref := Suc (next_ref st)\<rparr>)"
  using assms
  by (simp add: df_to_dataset_def frame_copy_def frame_pop_def deref_def new_frame_def getitem_def)

lemma df_to_dataset_no_object:
  assumes "frames st r = None"
  shows "df_to_dataset r shuffle batch_size st = (Inl (OtherError ''no such object''), st)"
  using assms by (simp add: df_to_dataset_def frame_copy_def deref_def)

lemma df_to_dataset_frames:
  assumes "r' < next_ref st"
  shows "frames (snd (df_to_dataset r shuffle batch_size st)) r' = frames st r'"
proof (cases "frames st r")
  case None
  then show ?thesis by (simp add: df_to_dataset_no_object)
next
  case (Some df)
  show ?thesis
  proof (cases "map_of (cols df) ''target''")
    case None
    with Some assms show ?thesis by (simp add: df_to_dataset_no_target)
  next
    case (Some labels)
    with \<open>frames st r = Some df\<close> assms show ?thesis by (simp add: df_to_dataset_ok)
  qed
qed

lemma wrap_ok:
  "wrap name v shuffle batch_size g = Inr (ds, st) \<longleftrightarrow>
     (\<exists>r df labels. v = Some r \<and> frames (heap g) r = Some df
        \<and> map_of (cols df) ''target'' = Some labels
        \<and> ds = Prefetch batch_size (Batch batch_size
            (if shuffle then Shuffle (nrows df) (FromTensorSlices (features_of df) labels)
             else FromTensorSlices (features_of df) labels))
        \<and> st = (heap g)\<lparr>frames := (frames (heap g))(next_ref (heap g) \<mapsto> df\<lparr>cols := features_of df\<rparr>),
                        next_ref := Suc (next_ref (heap g))\<rparr>)"
proof (cases v)
  case None
  then show ?thesis by (simp add: wrap_def var_def and_then_def)
next
  case (Some r)
  show ?thesis
  proof (cases "frames (heap g) r")
    case None
    with Some show ?thesis by (simp add: wrap_def var_def and_then_def df_to_dataset_no_object)
  next
    case df: (Some df)
    show ?thesis
    proof (cases "map_of (cols df) ''target''")
      case None
      with Some df show ?thesis by (simp add: wrap_def var_def and_then_def df_to_dataset_no_target)
    next
      case labels: (Some labels)
      with Some df show ?thesis
        by (auto simp add: wrap_def var_def and_then_def df_to_dataset_ok)
    qed
  qed
qed

text \<open>
  Claim C9. \<open>df_to_dataset\<close> leaves its dataframe argument unchanged: it pops the
  \<open>target\<close> column from a copy. After the call, whether it returned or raised, the
  caller's reference points to the same dataframe, with its \<open>target\<close> column and
  every row.
\<close>

theorem df_to_dataset_leaves_argument:
  assumes "frames st r = Some df" and "r < next_ref st"
  shows "frames (snd (df_to_dataset r shuffle batch_size st)) r = Some df"
  using assms df_to_dataset_frames [of r st r shuffle batch_size] by simp

theorem df_to_dataset_leaves_argument_witness:
  "frames example_store 0 = Some example_frame
   \<and> 0 < next_ref example_store
   \<and> fst (df_to_dataset 0 True 32 example_store) =
       Inr (Prefetch 32 (Batch 32 (Shuffle 2
         (FromTensorSlices [(''Fee'', [IntV 0, IntV 50])] [IntV 1, IntV 0]))))
   \<and> frames (snd (df_to_dataset 0 True 32 example_store)) 0 = Some example_frame
   \<and> getitem example_frame ''target'' = Inr [IntV 1, IntV 0]"
proof -
  have a: "frames example_store 0 = Some example_frame"
    by (simp add: example_store_def)
  have b: "0 < next_ref example_store"
    by (simp add: example_store_def)
  have t: "map_of (cols example_frame) ''target'' = Some [IntV 1, IntV 0]"
    by (simp add: example_frame_def)
  have c: "fst (df_to_dataset 0 True 32 example_store) =
       Inr (Prefetch 32 (Batch 32 (Shuffle 2
         (FromTensorSlices [(''Fee'', [IntV 0, IntV 50])] [IntV 1, IntV 0]))))"
    by (simp add: df_to_dataset_ok [OF a t]) (simp add: features_of_def example_frame_def)
  from df_to_dataset_leaves_argument [OF a b, of True 32] a b c t show ?thesis
    by (simp add: getitem_def)
qed

section \<open>What each statement does to dataframes and datasets\<close>

lemma append_feature_frame_state:
  "append_feature col enc g = Inr g' \<Longrightarrow> frame_state g' = frame_state g"
  by (auto simp: append_feature_def and_then_eq_Inr frame_state_def)

lemma exec_TakeOne:
  assumes "exec env TakeOne g = Inr g'"
  shows "\<exists>f l. g' = g\<lparr>v_train_features := Some f, v_label_batch := Some l\<rparr>"
proof -
  from assms obtain ds where ds: "v_train_ds g = Some ds"
    by (auto simp: and_then_eq_Inr)
  show ?thesis
  proof (cases "dataset_iter env (Take 1 ds)")
    case (Inl e)
    with assms ds show ?thesis by (simp add: var_def)
  next
    case (Inr batches)
    with assms ds show ?thesis
      by (cases batches) (auto simp: var_def split: list.split_asm prod.split_asm)
  qed
qed

lemma quiet_exec:
  "\<not> touches_frames s \<Longrightarrow> exec env s g = Inr g' \<Longrightarrow> frame_state g' = frame_state g"
proof (cases s)
  case TakeOne
  assume "exec env s g = Inr g'"
  with TakeOne have "exec env TakeOne g = Inr g'" by (simp only:)
  from exec_TakeOne [OF this] show ?thesis by (auto simp: frame_state_def)
next
  case LoadModel
  assume "exec env s g = Inr g'"
  with LoadModel show ?thesis
    by (auto simp: and_then_eq_Inr frame_state_def split: option.split_asm)
qed (auto simp: and_then_eq_Inr Let_def frame_state_def dest: append_feature_frame_state [unfolded frame_state_def])


lemma deref_eq_Inr [simp]: "deref r st = Inr df \<longleftrightarrow> frames st r = Some df"
  by (simp add: deref_def split: option.splits)

lemma frame_of_eq_Inr:
  "frame_of name v g = Inr df \<longleftrightarrow> (\<exists>r. v = Some r \<and> frames (heap g) r = Some df)"
  by (auto simp: frame_of_def and_then_eq_Inr)

lemma iloc_columns: "iloc df positions = Inr df' \<Longrightarrow> columns df' = columns df"
  by (auto simp: iloc_def columns_def split: if_splits)

lemma train_test_split_ok:
  assumes "train_test_split env r test_size st = Inr ((r1, r2), st')"
  shows "\<exists>df train test. frames st r = Some df \<and> columns train = columns df
      \<and> columns test = columns df \<and> r1 = next_ref st \<and> r2 = Suc (next_ref st)
      \<and> st' = st\<lparr>frames := (frames st)(next_ref st \<mapsto> train, Suc (next_ref st) \<mapsto> test),
                  next_ref := Suc (Suc (next_ref st))\<rparr>"
  using assms
  by (auto simp: train_test_split_def and_then_eq_Inr new_frame_def dest: iloc_columns
      split: prod.split_asm)

lemma exec_ReadCsv:
  assumes "exec env ReadCsv g = Inr g'"
  shows "\<exists>df. pd_read_csv env csv_file = Inr df
      \<and> g' = g\<lparr>heap := (heap g)\<lparr>frames := (frames (heap g))(next_ref (heap g) \<mapsto> df),
                                next_ref := Suc (next_ref (heap g))\<rparr>,
               v_dataframe := Some (next_ref (heap g))\<rparr>"
  using assms by (auto simp: and_then_eq_Inr new_frame_def)

lemma exec_MakeTarget:
  assumes "exec env MakeTarget g = Inr g'"
  shows "\<exists>r df speed df'. v_dataframe g = Some r \<and> frames (heap g) r = Some df
      \<and> getitem df ''AdoptionSpeed'' = Inr speed
      \<and> setitem df ''target'' (np_where_eq speed (IntV 4) (IntV 0) (IntV 1)) = Inr df'
      \<and> g' = g\<lparr>heap := (heap g)\<lparr>frames := (frames (heap g))(r \<mapsto> df')\<rparr>\<rparr>"
  using assms by (auto simp: and_then_eq_Inr)

lemma exec_DropUnused:
  assumes "exec env DropUnused g = Inr g'"
  shows "\<exists>r df df'. v_dataframe g = Some r \<and> frames (heap g) r = Some df
      \<and> drop_columns df [''AdoptionSpeed'', ''Description''] = Inr df'
      \<and> g' = g\<lparr>heap := (heap g)\<lparr>frames := (frames (heap g))(next_ref (heap g) \<mapsto> df'),
                                next_ref := Suc (next_ref (heap g))\<rparr>,
               v_dataframe := Some (next_ref (heap g))\<rparr>"
  using assms by (auto simp: and_then_eq_Inr new_frame_def frame_of_eq_Inr)

lemma exec_SplitTest:
  assumes "exec env SplitTest g = Inr g'"
  shows "\<exists>r df train test. v_dataframe g = Some r \<and> frames (heap g) r = Some df
      \<and> columns train = columns df \<and> columns test = columns df
      \<and> g' = g\<lparr>heap := (heap g)\<lparr>frames := (frames (heap g))(next_ref (heap g) \<mapsto> train,
                                                    Suc (next_ref (heap g)) \<mapsto> test),
                                next_ref := Suc (Suc (next_ref (heap g)))\<rparr>,
               v_train := Some (next_ref (heap g)), v_test := Some (Suc (next_ref (heap g)))\<rparr>"
  using assms by (auto simp: and_then_eq_Inr dest!: train_test_split_ok)

lemma exec_SplitVal:
  assumes "exec env SplitVal g = Inr g'"
  shows "\<exists>r df train val. v_train g = Some r \<and> frames (heap g) r = Some df
      \<and> columns train = columns df \<and> columns val = columns df
      \<and> g' = g\<lparr>heap := (heap g)\<lparr>frames := (frames (heap g))(next_ref (heap g) \<mapsto> train,
                                                    Suc (next_ref (heap g)) \<mapsto> val),
                                next_ref := Suc (Suc (next_ref (heap g)))\<rparr>,
               v_train := Some (next_ref (heap g)), v_val := Some (Suc (next_ref (heap g)))\<rparr>"
  using assms by (auto simp: and_then_eq_Inr dest!: train_test_split_ok)

lemma exec_WrapTrainDefault:
  assumes "exec env WrapTrainDefault g = Inr g'"
  shows "\<exists>r df labels. v_train g = Some r \<and> frames (heap g) r = Some df
      \<and> map_of (cols df) ''target'' = Some labels
      \<and> g' = g\<lparr>heap := (heap g)\<lparr>frames := (frames (heap g))(next_ref (heap g) \<mapsto> df\<lparr>cols := features_of df\<rparr>),
                                next_ref := Suc (next_ref (heap g))\<rparr>,
               v_train_ds := Some (Prefetch 32 (Batch 32 (Shuffle (nrows df) (FromTensorSlices (features_of df) labels))))\<rparr>"
  using assms by (auto simp: and_then_eq_Inr wrap_ok)

lemma exec_WrapTrain:
  assumes "exec env WrapTrain g = Inr g'"
  shows "\<exists>b r df labels. v_batch_size g = Some b \<and> v_train g = Some r \<and> frames (heap g) r = Some df
      \<and> map_of (cols df) ''target'' = Some labels
      \<and> g' = g\<lparr>heap := (heap g)\<lparr>frames := (frames (heap g))(next_ref (heap g) \<mapsto> df\<lparr>cols := features_of df\<rparr>),
                                next_ref := Suc (next_ref (heap g))\<rparr>,
               v_train_ds := Some (Prefetch b (Batch b (Shuffle (nrows df) (FromTensorSlices (features_of df) labels))))\<rparr>"
  using assms by (auto simp: and_then_eq_Inr wrap_ok)

lemma exec_WrapVal:
  assumes "exec env WrapVal g = Inr g'"
  shows "\<exists>b r df labels. v_batch_size g = Some b \<and> v_val g = Some r \<and> frames (heap g) r = Some df
      \<and> map_of (cols df) ''target'' = Some labels
      \<and> g' = g\<lparr>heap := (heap g)\<lparr>frames := (frames (heap g))(next_ref (heap g) \<mapsto> df\<lparr>cols := features_of df\<rparr>),
                                next_ref := Suc (next_ref (heap g))\<rparr>,
               v_val_ds := Some (Prefetch b (Batch b (FromTensorSlices (features_of df) labels)))\<rparr>"
  using assms by (auto simp: and_then_eq_Inr wrap_ok)

lemma exec_WrapTest:
  assumes "exec env WrapTest g = Inr g'"
  shows "\<exists>b r df labels. v_batch_size g = Some b \<and> v_test g = Some r \<and> frames (heap g) r = Some df
      \<and> map_of (cols df) ''target'' = Some labels
      \<and> g' = g\<lparr>heap := (heap g)\<lparr>frames := (frames (heap g))(next_ref (heap g) \<mapsto> df\<lparr>cols := features_of df\<rparr>),
                                next_ref := Suc (next_ref (heap g))\<rparr>,
               v_test_ds := Some (Prefetch b (Batch b (FromTensorSlices (features_of df) labels)))\<rparr>"
  using assms by (auto simp: and_then_eq_Inr wrap_ok)

lemma features_lack: "lacks_unused (columns df) \<Longrightarrow> lacks_unused (map fst (features_of df))"
  by (auto simp: lacks_unused_def columns_def features_of_def)

lemma frame_state_same:
  assumes "frame_state g' = frame_state g"
  shows "valid_refs g' = valid_refs g"
    and "bound_frame g' (v_dataframe g') = bound_frame g (v_dataframe g)"
    and "bound_frame g' (v_train g') = bound_frame g (v_train g)"
    and "bound_frame g' (v_val g') = bound_frame g (v_val g)"
    and "bound_frame g' (v_test g') = bound_frame g (v_test g)"
    and "unused_columns_gone g' = unused_columns_gone g"
  using assms
  by (simp_all add: frame_state_def valid_refs_def bound_frame_def unused_columns_gone_def
      frame_lacks_def cong: option.case_cong)

lemma touching_statements:
  "touches_frames s \<Longrightarrow>
     s \<in> {ReadCsv, MakeTarget, DropUnused, SplitTest, SplitVal, WrapTrainDefault, WrapTrain,
          WrapVal, WrapTest}"
  by (cases s) simp_all

lemma touching_valid_refs:
  assumes "valid_refs g"
  shows "exec env ReadCsv g = Inr g' \<Longrightarrow> valid_refs g'"
    and "exec env MakeTarget g = Inr g' \<Longrightarrow> valid_refs g'"
    and "exec env DropUnused g = Inr g' \<Longrightarrow> valid_refs g'"
    and "exec env SplitTest g = Inr g' \<Longrightarrow> valid_refs g'"
    and "exec env SplitVal g = Inr g' \<Longrightarrow> valid_refs g'"
    and "exec env WrapTrainDefault g = Inr g' \<Longrightarrow> valid_refs g'"
    and "exec env WrapTrain g = Inr g' \<Longrightarrow> valid_refs g'"
    and "exec env WrapVal g = Inr g' \<Longrightarrow> valid_refs g'"
    and "exec env WrapTest g = Inr g' \<Longrightarrow> valid_refs g'"
proof -
  note defs = valid_refs_def ref_ok_def
  show "exec env ReadCsv g = Inr g' \<Longrightarrow> valid_refs g'"
    using assms by (drule_tac exec_ReadCsv) (auto simp: defs split: option.splits)
  show "exec env MakeTarget g = Inr g' \<Longrightarrow> valid_refs g'"
    using assms by (drule_tac exec_MakeTarget) (auto simp: defs split: option.splits)
  show "exec env DropUnused g = Inr g' \<Longrightarrow> valid_refs g'"
    using assms by (drule_tac exec_DropUnused) (auto simp: defs split: option.splits)
  show "exec env SplitTest g = Inr g' \<Longrightarrow> valid_refs g'"
    using assms by (drule_tac exec_SplitTest) (auto simp: defs split: option.splits)
  show "exec env SplitVal g = Inr g' \<Longrightarrow> valid_refs g'"
    using assms by (drule_tac exec_SplitVal) (auto simp: defs split: option.splits)
  show "exec env WrapTrainDefault g = Inr g' \<Longrightarrow> valid_refs g'"
    using assms by (drule_tac exec_WrapTrainDefault) (auto simp: defs split: option.splits)
  show "exec env WrapTrain g = Inr g' \<Longrightarrow> valid_refs g'"
    using assms by (drule_tac exec_WrapTrain) (auto simp: defs split: option.splits)
  show "exec env WrapVal g = Inr g' \<Longrightarrow> valid_refs g'"
    using assms by (drule_tac exec_WrapVal) (auto simp: defs split: option.splits)
  show "exec env WrapTest g = Inr g' \<Longrightarrow> valid_refs g'"
    using assms by (drule_tac exec_WrapTest) (auto simp: defs split: option.splits)
qed

lemma exec_valid_refs:
  assumes "valid_refs g" and "exec env s g = Inr g'"
  shows "valid_refs g'"
proof (cases "touches_frames s")
  case False
  from quiet_exec [OF this assms(2)] have "frame_state g' = frame_state g" .
  from frame_state_same(1) [OF this] assms(1) show ?thesis by simp
next
  case True
  from touching_statements [OF this] assms(2) touching_valid_refs [OF assms(1), of env g']
  show ?thesis by (elim insertE emptyE) (simp_all only:)
qed

lemma start_valid_refs: "valid_refs (start fs)"
  by (simp add: valid_refs_def ref_ok_def start_def)

lemma run_valid_refs:
  "valid_refs g \<Longrightarrow> snd (run env ss g) = Inr g' \<Longrightarrow> valid_refs g'"
proof (induction ss arbitrary: g)
  case Nil
  then show ?case by simp
next
  case (Cons s ss)
  then show ?case by (auto simp: run_ok_Cons dest: exec_valid_refs)
qed


section \<open>The three splits\<close>

lemma pipeline_cell_ok:
  assumes "valid_refs g" and "snd (run env pipeline_cell g) = Inr g'"
  shows "\<exists>train val test train_labels val_labels test_labels.
      bound_frame g' (v_train g') = Some train \<and> bound_frame g' (v_val g') = Some val
      \<and> bound_frame g' (v_test g') = Some test
      \<and> map_of (cols train) ''target'' = Some train_labels
      \<and> map_of (cols val) ''target'' = Some val_labels
      \<and> map_of (cols test) ''target'' = Some test_labels
      \<and> v_train_ds g' = Some (Prefetch 256 (Batch 256 (Shuffle (nrows train)
            (FromTensorSlices (features_of train) train_labels))))
      \<and> v_val_ds g' = Some (Prefetch 256 (Batch 256 (FromTensorSlices (features_of val) val_labels)))
      \<and> v_test_ds g' = Some (Prefetch 256 (Batch 256 (FromTensorSlices (features_of test) test_labels)))"
proof -
  from assms(2) obtain g2 g3 where
    g2: "exec env WrapTrain (g\<lparr>v_batch_size := Some 256\<rparr>) = Inr g2" and
    g3: "exec env WrapVal g2 = Inr g3" and
    g4: "exec env WrapTest g3 = Inr g'"
    by (auto simp: pipeline_cell_def run_ok_Cons)
  from exec_WrapTrain [OF g2] obtain r1 train l1 where
    1: "v_train g = Some r1" "frames (heap g) r1 = Some train" "map_of (cols train) ''target'' = Some l1"
       "g2 = g\<lparr>v_batch_size := Some 256,
                heap := (heap g)\<lparr>frames := (frames (heap g))(next_ref (heap g) \<mapsto> train\<lparr>cols := features_of train\<rparr>),
                                next_ref := Suc (next_ref (heap g))\<rparr>,
                v_train_ds := Some (Prefetch 256 (Batch 256 (Shuffle (nrows train)
                   (FromTensorSlices (features_of train) l1))))\<rparr>"
    by auto
  from exec_WrapVal [OF g3] obtain r2 val l2 where
    2: "v_val g2 = Some r2" "frames (heap g2) r2 = Some val" "map_of (cols val) ''target'' = Some l2"
       "g3 = g2\<lparr>heap := (heap g2)\<lparr>frames := (frames (heap g2))(next_ref (heap g2) \<mapsto> val\<lparr>cols := features_of val\<rparr>),
                                next_ref := Suc (next_ref (heap g2))\<rparr>,
                v_val_ds := Some (Prefetch 256 (Batch 256 (FromTensorSlices (features_of val) l2)))\<rparr>"
    using 1(4) by auto
  from exec_WrapTest [OF g4] obtain r3 test l3 where
    3: "v_test g3 = Some r3" "frames (heap g3) r3 = Some test" "map_of (cols test) ''target'' = Some l3"
       "g' = g3\<lparr>heap := (heap g3)\<lparr>frames := (frames (heap g3))(next_ref (heap g3) \<mapsto> test\<lparr>cols := features_of test\<rparr>),
                                next_ref := Suc (next_ref (heap g3))\<rparr>,
                v_test_ds := Some (Prefetch 256 (Batch 256 (FromTensorSlices (features_of test) l3)))\<rparr>"
    using 1(4) 2(4) by auto
  from assms(1) 1 have r1: "r1 < next_ref (heap g)"
    by (simp add: valid_refs_def ref_ok_def)
  from assms(1) 1 2 have r2: "r2 < next_ref (heap g)"
    by (simp add: valid_refs_def ref_ok_def)
  from assms(1) 1 2 3 have r3: "r3 < next_ref (heap g)"
    by (simp add: valid_refs_def ref_ok_def)
  have "bound_frame g' (v_train g') = Some train"
    using 1 2 3 r1 by (simp add: bound_frame_def)
  moreover have "bound_frame g' (v_val g') = Some val"
    using 1 2 3 r2 by (simp add: bound_frame_def)
  moreover have "bound_frame g' (v_test g') = Some test"
    using 1 2 3 r3 by (simp add: bound_frame_def)
  moreover have "v_train_ds g' = Some (Prefetch 256 (Batch 256 (Shuffle (nrows train)
            (FromTensorSlices (features_of train) l1))))"
    using 1 2 3 by simp
  moreover have "v_val_ds g' = Some (Prefetch 256 (Batch 256 (FromTensorSlices (features_of val) l2)))"
    using 1 2 3 by simp
  moreover have "v_test_ds g' = Some (Prefetch 256 (Batch 256 (FromTensorSlices (features_of test) l3)))"
    using 1 2 3 by simp
  ultimately show ?thesis using 1(3) 2(3) 3(3) by blast
qed

lemma example_pipeline_ok:
  "\<not> isl (snd (run example_env (load_cell @ head_cell @ target_cell @ split_cell @ small_batch_cell
      @ first_batch_cell @ demo_cells @ pipeline_cell) (start no_files)))"
  by code_simp

text \<open>
  Claim C4, as amended. When the notebook has run through the cell that creates
  \<open>train_ds\<close>, \<open>val_ds\<close> and \<open>test_ds\<close>, each of the three splits is wrapped by
  \<open>df_to_dataset\<close>: the train split is shuffled with a buffer of its row count, batched
  by 256 and prefetched; the validation and test splits are batched by 256 and
  prefetched, and not shuffled.
\<close>

theorem splits_wrapped:
  assumes "snd (run env (load_cell @ head_cell @ target_cell @ split_cell @ small_batch_cell
      @ first_batch_cell @ demo_cells @ pipeline_cell) (start fs)) = Inr g"
  shows "\<exists>train val test train_labels val_labels test_labels.
      bound_frame g (v_train g) = Some train \<and> bound_frame g (v_val g) = Some val
      \<and> bound_frame g (v_test g) = Some test
      \<and> map_of (cols train) ''target'' = Some train_labels
      \<and> map_of (cols val) ''target'' = Some val_labels
      \<and> map_of (cols test) ''target'' = Some test_labels
      \<and> v_train_ds g = Some (Prefetch 256 (Batch 256 (Shuffle (nrows train)
            (FromTensorSlices (features_of train) train_labels))))
      \<and> v_val_ds g = Some (Prefetch 256 (Batch 256 (FromTensorSlices (features_of val) val_labels)))
      \<and> v_test_ds g = Some (Prefetch 256 (Batch 256 (FromTensorSlices (features_of test) test_labels)))"
proof -
  define before where "before = load_cell @ head_cell @ target_cell @ split_cell
    @ small_batch_cell @ first_batch_cell @ demo_cells"
  from assms have "snd (run env (before @ pipeline_cell) (start fs)) = Inr g"
    by (simp add: before_def)
  then obtain g0 where g0: "snd (run env before (start fs)) = Inr g0"
      "snd (run env pipeline_cell g0) = Inr g"
    by (auto simp: run_ok_append)
  from run_valid_refs [OF start_valid_refs g0(1)] have "valid_refs g0" .
  from pipeline_cell_ok [OF this g0(2)] show ?thesis .
qed

theorem splits_wrapped_witness:
  "\<exists>g train val test.
      snd (run example_env (load_cell @ head_cell @ target_cell @ split_cell @ small_batch_cell
        @ first_batch_cell @ demo_cells @ pipeline_cell) (start no_files)) = Inr g
      \<and> bound_frame g (v_train g) = Some train \<and> bound_frame g (v_val g) = Some val
      \<and> bound_frame g (v_test g) = Some test
      \<and> map_option stages (v_train_ds g) = Some [ShuffleStage (nrows train), BatchStage 256, PrefetchStage 256]
      \<and> map_option stages (v_val_ds g) = Some [BatchStage 256, PrefetchStage 256]
      \<and> map_option stages (v_test_ds g) = Some [BatchStage 256, PrefetchStage 256]"
proof -
  from example_pipeline_ok obtain g where
    ok: "snd (run example_env (load_cell @ head_cell @ target_cell @ split_cell @ small_batch_cell
        @ first_batch_cell @ demo_cells @ pipeline_cell) (start no_files)) = Inr g"
    by (cases "snd (run example_env (load_cell @ head_cell @ target_cell @ split_cell
        @ small_batch_cell @ first_batch_cell @ demo_cells @ pipeline_cell) (start no_files))") auto
  from splits_wrapped [OF ok] ok show ?thesis by force
qed

text \<open>
  The claim as stated has all three splits shuffled. The notebook passes
  \<open>shuffle=False\<close> for the validation and the test split: on the example table their
  pipelines are a batch stage and a prefetch stage, with no shuffle stage.
\<close>

theorem splits_wrapped_counterexample:
  "map_option stages (v_val_ds (projr (snd (run example_env (load_cell @ head_cell @ target_cell
       @ split_cell @ small_batch_cell @ first_batch_cell @ demo_cells @ pipeline_cell)
       (start no_files))))) = Some [BatchStage 256, PrefetchStage 256]
   \<and> map_option stages (v_test_ds (projr (snd (run example_env (load_cell @ head_cell @ target_cell
       @ split_cell @ small_batch_cell @ first_batch_cell @ demo_cells @ pipeline_cell)
       (start no_files))))) = Some [BatchStage 256, PrefetchStage 256]"
  by code_simp

section \<open>The label and the dropped columns\<close>

lemma map_of_replace:
  "name \<in> fst ` set xs \<Longrightarrow>
     map_of (map (\<lambda>(k, c). if k = name then (k, vs) else (k, c)) xs) name = Some vs"
  by (induction xs) auto

lemma map_of_append_new:
  "name \<notin> fst ` set xs \<Longrightarrow> map_of (xs @ [(name, vs)]) name = Some vs"
  by (induction xs) auto

lemma setitem_getitem:
  assumes "setitem df name vs = Inr df'"
  shows "getitem df' name = Inr vs"
proof (cases "name \<in> fst ` set (cols df)")
  case True
  with assms have "cols df' = map (\<lambda>(k, c). if k = name then (k, vs) else (k, c)) (cols df)"
    by (auto simp: setitem_def columns_def split: if_splits)
  with True show ?thesis by (simp add: getitem_def map_of_replace)
next
  case False
  with assms have "cols df' = cols df @ [(name, vs)]"
    by (auto simp: setitem_def columns_def split: if_splits)
  with False show ?thesis by (simp add: getitem_def map_of_append_new del: map_of_append)
qed

lemma map_of_filter_keys:
  "name \<notin> set names \<Longrightarrow> map_of (filter (\<lambda>(k, c). k \<notin> set names) xs) name = map_of xs name"
  by (induction xs) auto

lemma drop_columns_getitem:
  "drop_columns df names = Inr df' \<Longrightarrow> name \<notin> set names \<Longrightarrow> getitem df' name = getitem df name"
  by (auto simp: drop_columns_def getitem_def map_of_filter_keys split: list.splits)

lemma drop_columns_lacks:
  "drop_columns df [''AdoptionSpeed'', ''Description''] = Inr df' \<Longrightarrow> lacks_unused (columns df')"
  by (auto simp: drop_columns_def lacks_unused_def columns_def split: list.splits if_splits)

lemma setitem_length: "setitem df name vs = Inr df' \<Longrightarrow> length vs = nrows df"
  by (auto simp: setitem_def split: if_splits)

lemma target_cell_ok:
  assumes "snd (run env (load_cell @ head_cell @ target_cell) (start fs)) = Inr g"
  shows "\<exists>csv speed df. pd_read_csv env csv_file = Inr csv
      \<and> getitem csv ''AdoptionSpeed'' = Inr speed \<and> length speed = nrows csv
      \<and> bound_frame g (v_dataframe g) = Some df
      \<and> getitem df ''target'' = Inr (map (\<lambda>x. if x = IntV 4 then IntV 0 else IntV 1) speed)
      \<and> valid_refs g \<and> unused_columns_gone g"
proof -
  from assms obtain g1 g2 g3 g4 where
    g1: "exec env GetFile (start fs) = Inr g1" and
    g2: "exec env ReadCsv g1 = Inr g2" and
    g3: "exec env Head g2 = Inr g3" and
    g4: "exec env MakeTarget g3 = Inr g4" and
    g5: "exec env DropUnused g4 = Inr g"
    by (auto simp: load_cell_def head_cell_def target_cell_def run_ok_Cons)
  from g1 have 1: "g1 = start fs" by (auto simp: and_then_eq_Inr)
  from exec_ReadCsv [OF g2] obtain csv where
    csv: "pd_read_csv env csv_file = Inr csv" and
    2: "g2 = g1\<lparr>heap := (heap g1)\<lparr>frames := (frames (heap g1))(next_ref (heap g1) \<mapsto> csv),
                                next_ref := Suc (next_ref (heap g1))\<rparr>,
               v_dataframe := Some (next_ref (heap g1))\<rparr>"
    by blast
  from g3 have 3: "g3 = g2" by (auto simp: and_then_eq_Inr)
  from exec_MakeTarget [OF g4] 1 2 3 obtain speed df' where
    speed: "getitem csv ''AdoptionSpeed'' = Inr speed" and
    set: "setitem csv ''target'' (np_where_eq speed (IntV 4) (IntV 0) (IntV 1)) = Inr df'" and
    4: "g4 = g3\<lparr>heap := (heap g3)\<lparr>frames := (frames (heap g3))(0 \<mapsto> df')\<rparr>\<rparr>"
    by (auto simp: start_def)
  from exec_DropUnused [OF g5] 1 2 3 4 obtain df where
    drop: "drop_columns df' [''AdoptionSpeed'', ''Description''] = Inr df" and
    5: "g = g4\<lparr>heap := (heap g4)\<lparr>frames := (frames (heap g4))(next_ref (heap g4) \<mapsto> df),
                                next_ref := Suc (next_ref (heap g4))\<rparr>,
               v_dataframe := Some (next_ref (heap g4))\<rparr>"
    by (auto simp: start_def)
  have len: "length speed = nrows csv"
    using setitem_length [OF set] by (simp add: np_where_eq_def)
  have bound: "bound_frame g (v_dataframe g) = Some df"
    using 5 by (simp add: bound_frame_def)
  have target: "getitem df ''target'' = Inr (map (\<lambda>x. if x = IntV 4 then IntV 0 else IntV 1) speed)"
    using drop_columns_getitem [OF drop, of "''target''"] setitem_getitem [OF set]
    by (simp add: np_where_eq_def)
  have valid: "valid_refs g"
    using 1 2 3 4 5 by (simp add: valid_refs_def ref_ok_def start_def)
  have gone: "unused_columns_gone g"
    using 1 2 3 4 5 drop_columns_lacks [OF drop]
    by (simp add: unused_columns_gone_def frame_lacks_def dataset_lacks_def start_def)
  from csv speed len bound target valid gone show ?thesis by blast
qed

lemma ref_ok_kept:
  "ref_ok (heap g) v \<Longrightarrow> next_ref (heap g) \<le> next_ref (heap g') \<Longrightarrow> ref_ok (heap g') v"
  by (cases v) (simp_all add: ref_ok_def)

lemma frame_lacks_kept:
  assumes "ref_ok (heap g) v" and "frame_lacks g v"
    and "\<And>r. r < next_ref (heap g) \<Longrightarrow> frames (heap g') r = frames (heap g) r"
  shows "frame_lacks g' v"
  using assms by (cases v) (simp_all add: frame_lacks_def ref_ok_def)

lemma bound_frame_kept:
  assumes "ref_ok (heap g) v"
    and "\<And>r. r < next_ref (heap g) \<Longrightarrow> frames (heap g') r = frames (heap g) r"
  shows "bound_frame g' v = bound_frame g v"
  using assms by (cases v) (simp_all add: bound_frame_def ref_ok_def)

lemma allocation_keeps:
  assumes inv: "valid_refs g" "bound_frame g (v_dataframe g) = Some df0" "unused_columns_gone g"
    and grows: "next_ref (heap g) \<le> next_ref (heap g')"
    and old: "\<And>r. r < next_ref (heap g) \<Longrightarrow> frames (heap g') r = frames (heap g) r"
    and dataframe: "v_dataframe g' = v_dataframe g"
    and train: "v_train g' = v_train g \<or> frame_lacks g' (v_train g') \<and> ref_ok (heap g') (v_train g')"
    and val: "v_val g' = v_val g \<or> frame_lacks g' (v_val g') \<and> ref_ok (heap g') (v_val g')"
    and test: "v_test g' = v_test g \<or> frame_lacks g' (v_test g') \<and> ref_ok (heap g') (v_test g')"
    and train_ds: "v_train_ds g' = v_train_ds g \<or> dataset_lacks (v_train_ds g')"
    and val_ds: "v_val_ds g' = v_val_ds g \<or> dataset_lacks (v_val_ds g')"
    and test_ds: "v_test_ds g' = v_test_ds g \<or> dataset_lacks (v_test_ds g')"
  shows "valid_refs g' \<and> bound_frame g' (v_dataframe g') = Some df0 \<and> unused_columns_gone g'"
proof -
  from inv(1) have ok: "ref_ok (heap g) (v_dataframe g)" "ref_ok (heap g) (v_train g)"
      "ref_ok (heap g) (v_val g)" "ref_ok (heap g) (v_test g)"
    by (simp_all add: valid_refs_def)
  from inv(3) have lacks: "frame_lacks g (v_dataframe g)" "frame_lacks g (v_train g)"
      "frame_lacks g (v_val g)" "frame_lacks g (v_test g)" "dataset_lacks (v_train_ds g)"
      "dataset_lacks (v_val_ds g)" "dataset_lacks (v_test_ds g)"
    by (simp_all add: unused_columns_gone_def)
  have a0: "ref_ok (heap g') (v_dataframe g')" "frame_lacks g' (v_dataframe g')"
    using dataframe ref_ok_kept [OF ok(1) grows] frame_lacks_kept [OF ok(1) lacks(1) old] by simp_all
  have a1: "ref_ok (heap g') (v_train g')" "frame_lacks g' (v_train g')"
    using train ref_ok_kept [OF ok(2) grows] frame_lacks_kept [OF ok(2) lacks(2) old] by auto
  have a2: "ref_ok (heap g') (v_val g')" "frame_lacks g' (v_val g')"
    using val ref_ok_kept [OF ok(3) grows] frame_lacks_kept [OF ok(3) lacks(3) old] by auto
  have a3: "ref_ok (heap g') (v_test g')" "frame_lacks g' (v_test g')"
    using test ref_ok_kept [OF ok(4) grows] frame_lacks_kept [OF ok(4) lacks(4) old] by auto
  have d: "dataset_lacks (v_train_ds g')" "dataset_lacks (v_val_ds g')" "dataset_lacks (v_test_ds g')"
    using train_ds val_ds test_ds lacks(5-7) by auto
  have b: "bound_frame g' (v_dataframe g') = Some df0"
    using dataframe bound_frame_kept [OF ok(1) old] inv(2) by simp
  from a0 a1 a2 a3 d b show ?thesis
    by (simp add: valid_refs_def unused_columns_gone_def)
qed

lemma later_touching_keeps:
  assumes inv: "valid_refs g" "bound_frame g (v_dataframe g) = Some df0" "unused_columns_gone g"
  shows "exec env SplitTest g = Inr g' \<Longrightarrow>
      valid_refs g' \<and> bound_frame g' (v_dataframe g') = Some df0 \<and> unused_columns_gone g'"
    and "exec env SplitVal g = Inr g' \<Longrightarrow>
      valid_refs g' \<and> bound_frame g' (v_dataframe g') = Some df0 \<and> unused_columns_gone g'"
    and "exec env WrapTrainDefault g = Inr g' \<Longrightarrow>
      valid_refs g' \<and> bound_frame g' (v_dataframe g') = Some df0 \<and> unused_columns_gone g'"
    and "exec env WrapTrain g = Inr g' \<Longrightarrow>
      valid_refs g' \<and> bound_frame g' (v_dataframe g') = Some df0 \<and> unused_columns_gone g'"
    and "exec env WrapVal g = Inr g' \<Longrightarrow>
      valid_refs g' \<and> bound_frame g' (v_dataframe g') = Some df0 \<and> unused_columns_gone g'"
    and "exec env WrapTest g = Inr g' \<Longrightarrow>
      valid_refs g' \<and> bound_frame g' (v_dataframe g') = Some df0 \<and> unused_columns_gone g'"
proof -
  from inv(3) have lacks: "frame_lacks g (v_dataframe g)" "frame_lacks g (v_train g)"
      "frame_lacks g (v_val g)" "frame_lacks g (v_test g)"
    by (simp_all add: unused_columns_gone_def)
  {
    assume "exec env SplitTest g = Inr g'"
    from exec_SplitTest [OF this] obtain r df train test where
      e: "v_dataframe g = Some r" "frames (heap g) r = Some df"
         "columns train = columns df" "columns test = columns df"
         "g' = g\<lparr>heap := (heap g)\<lparr>frames := (frames (heap g))(next_ref (heap g) \<mapsto> train,
                                                    Suc (next_ref (heap g)) \<mapsto> test),
                                next_ref := Suc (Suc (next_ref (heap g)))\<rparr>,
               v_train := Some (next_ref (heap g)), v_test := Some (Suc (next_ref (heap g)))\<rparr>"
      by blast
    from lacks(1) e(1,2) have "lacks_unused (columns df)" by (simp add: frame_lacks_def)
    with e show "valid_refs g' \<and> bound_frame g' (v_dataframe g') = Some df0 \<and> unused_columns_gone g'"
      by (intro allocation_keeps [OF inv]) (simp_all add: frame_lacks_def ref_ok_def)
  next
    assume "exec env SplitVal g = Inr g'"
    from exec_SplitVal [OF this] obtain r df train val where
      e: "v_train g = Some r" "frames (heap g) r = Some df"
         "columns train = columns df" "columns val = columns df"
         "g' = g\<lparr>heap := (heap g)\<lparr>frames := (frames (heap g))(next_ref (heap g) \<mapsto> train,
                                                    Suc (next_ref (heap g)) \<mapsto> val),
                                next_ref := Suc (Suc (next_ref (heap g)))\<rparr>,
               v_train := Some (next_ref (heap g)), v_val := Some (Suc (next_ref (heap g)))\<rparr>"
      by blast
    from lacks(2) e(1,2) have "lacks_unused (columns df)" by (simp add: frame_lacks_def)
    with e show "valid_refs g' \<and> bound_frame g' (v_dataframe g') = Some df0 \<and> unused_columns_gone g'"
      by (intro allocation_keeps [OF inv]) (simp_all add: frame_lacks_def ref_ok_def)
  next
    assume "exec env WrapTrainDefault g = Inr g'"
    from exec_WrapTrainDefault [OF this] obtain r df labels where
      e: "v_train g = Some r" "frames (heap g) r = Some df"
         "g' = g\<lparr>heap := (heap g)\<lparr>frames := (frames (heap g))(next_ref (heap g) \<mapsto> df\<lparr>cols := features_of df\<rparr>),
                                next_ref := Suc (next_ref (heap g))\<rparr>,
               v_train_ds := Some (Prefetch 32 (Batch 32 (Shuffle (nrows df) (FromTensorSlices (features_of df) labels))))\<rparr>"
      by blast
    from lacks(2) e(1,2) have "lacks_unused (columns df)" by (simp add: frame_lacks_def)
    from features_lack [OF this] e
    show "valid_refs g' \<and> bound_frame g' (v_dataframe g') = Some df0 \<and> unused_columns_gone g'"
      by (intro allocation_keeps [OF inv]) (simp_all add: dataset_lacks_def)
  next
    assume "exec env WrapTrain g = Inr g'"
    from exec_WrapTrain [OF this] obtain b r df labels where
      e: "v_train g = Some r" "frames (heap g) r = Some df"
         "g' = g\<lparr>heap := (heap g)\<lparr>frames := (frames (heap g))(next_ref (heap g) \<mapsto> df\<lparr>cols := features_of df\<rparr>),
                                next_ref := Suc (next_ref (heap g))\<rparr>,
               v_train_ds := Some (Prefetch b (Batch b (Shuffle (nrows df) (FromTensorSlices (features_of df) labels))))\<rparr>"
      by blast
    from lacks(2) e(1,2) have "lacks_unused (columns df)" by (simp add: frame_lacks_def)
    from features_lack [OF this] e
    show "valid_refs g' \<and> bound_frame g' (v_dataframe g') = Some df0 \<and> unused_columns_gone g'"
      by (intro allocation_keeps [OF inv]) (simp_all add: dataset_lacks_def)
  next
    assume "exec env WrapVal g = Inr g'"
    from exec_WrapVal [OF this] obtain b r df labels where
      e: "v_val g = Some r" "frames (heap g) r = Some df"
         "g' = g\<lparr>heap := (heap g)\<lparr>frames := (frames (heap g))(next_ref (heap g) \<mapsto> df\<lparr>cols := features_of df\<rparr>),
                                next_ref := Suc (next_ref (heap g))\<rparr>,
               v_val_ds := Some (Prefetch b (Batch b (FromTensorSlices (features_of df) labels)))\<rparr>"
      by blast
    from lacks(3) e(1,2) have "lacks_unused (columns df)" by (simp add: frame_lacks_def)
    from features_lack [OF this] e
    show "valid_refs g' \<and> bound_frame g' (v_dataframe g') = Some df0 \<and> unused_columns_gone g'"
      by (intro allocation_keeps [OF inv]) (simp_all add: dataset_lacks_def)
  next
    assume "exec env WrapTest g = Inr g'"
    from exec_WrapTest [OF this] obtain b r df labels where
      e: "v_test g = Some r" "frames (heap g) r = Some df"
         "g' = g\<lparr>heap := (heap g)\<lparr>frames := (frames (heap g))(next_ref (heap g) \<mapsto> df\<lparr>cols := features_of df\<rparr>),
                                next_ref := Suc (next_ref (heap g))\<rparr>,
               v_test_ds := Some (Prefetch b (Batch b (FromTensorSlices (features_of df) labels)))\<rparr>"
      by blast
    from lacks(4) e(1,2) have "lacks_unused (columns df)" by (simp add: frame_lacks_def)
    from features_lack [OF this] e
    show "valid_refs g' \<and> bound_frame g' (v_dataframe g') = Some df0 \<and> unused_columns_gone g'"
      by (intro allocation_keeps [OF inv]) (simp_all add: dataset_lacks_def)
  }
qed

lemma later_keeps:
  assumes "valid_refs g" and "bound_frame g (v_dataframe g) = Some df0" and "unused_columns_gone g"
    and "exec env s g = Inr g'" and "s \<notin> {ReadCsv, MakeTarget, DropUnused}"
  shows "valid_refs g' \<and> bound_frame g' (v_dataframe g') = Some df0 \<and> unused_columns_gone g'"
proof (cases "touches_frames s")
  case False
  from quiet_exec [OF this assms(4)] have same: "frame_state g' = frame_state g" .
  from frame_state_same(1,2,6) [OF same] assms(1-3) show ?thesis by simp
next
  case True
  note keeps = later_touching_keeps [OF assms(1-3), of env g']
  from touching_statements [OF True] assms(5) consider
    "s = SplitTest" | "s = SplitVal" | "s = WrapTrainDefault" | "s = WrapTrain" | "s = WrapVal"
    | "s = WrapTest" by blast
  then show ?thesis
  proof cases
    case 1
    with assms(4) keeps(1) show ?thesis by (simp only:)
  next
    case 2
    with assms(4) keeps(2) show ?thesis by (simp only:)
  next
    case 3
    with assms(4) keeps(3) show ?thesis by (simp only:)
  next
    case 4
    with assms(4) keeps(4) show ?thesis by (simp only:)
  next
    case 5
    with assms(4) keeps(5) show ?thesis by (simp only:)
  next
    case 6
    with assms(4) keeps(6) show ?thesis by (simp only:)
  qed
qed

lemma run_later_keeps:
  assumes "set ss \<inter> {ReadCsv, MakeTarget, DropUnused} = {}"
    and "valid_refs g" and "bound_frame g (v_dataframe g) = Some df0" and "unused_columns_gone g"
    and "snd (run env ss g) = Inr g'"
  shows "bound_frame g' (v_dataframe g') = Some df0 \<and> unused_columns_gone g'"
  using assms
proof (induction ss arbitrary: g)
  case Nil
  then show ?case by simp
next
  case (Cons s ss)
  from Cons.prems(5) obtain g1 where g1: "exec env s g = Inr g1" "snd (run env ss g1) = Inr g'"
    by (auto simp: run_ok_Cons)
  from Cons.prems(1) have s: "s \<notin> {ReadCsv, MakeTarget, DropUnused}"
    and ss: "set ss \<inter> {ReadCsv, MakeTarget, DropUnused} = {}" by auto
  from later_keeps [OF Cons.prems(2-4) g1(1) s] Cons.IH [OF ss _ _ _ g1(2)]
  show ?case by blast
qed

lemma notebook_after_target:
  "take 5 notebook = load_cell @ head_cell @ target_cell"
  "set (drop 5 notebook) \<inter> {ReadCsv, MakeTarget, DropUnused} = {}"
  by (simp_all add: notebook_statements cells)

lemma example_notebook_ok: "\<not> isl (snd (run example_env (take 42 notebook) (start no_files)))"
  by code_simp

text \<open>
  Claim C6. For every row of the loaded dataframe the derived label \<open>target\<close> is 0 where
  \<open>AdoptionSpeed\<close> is 4 and 1 otherwise. The columns \<open>AdoptionSpeed\<close> and \<open>Description\<close>
  are dropped in the first five statements, where the only step taken is loading the CSV:
  before any split, wrapping or training. In every state the script reaches from then on,
  the dataframes bound to \<open>dataframe\<close>, \<open>train\<close>, \<open>val\<close> and \<open>test\<close> and the three
  datasets have neither column, so no later operation can read them.
\<close>

theorem target_derived_and_columns_dropped:
  assumes "snd (run env (take k notebook) (start fs)) = Inr g" and "5 \<le> k"
  shows "\<exists>csv speed df. pd_read_csv env csv_file = Inr csv
      \<and> getitem csv ''AdoptionSpeed'' = Inr speed \<and> length speed = nrows csv
      \<and> bound_frame g (v_dataframe g) = Some df
      \<and> getitem df ''target'' = Inr (map (\<lambda>x. if x = IntV 4 then IntV 0 else IntV 1) speed)
      \<and> unused_columns_gone g
      \<and> steps (take 5 notebook) = [LoadCsv]"
proof -
  from assms(2) have "take k notebook = take 5 notebook @ take (k - 5) (drop 5 notebook)"
    using take_add [of 5 "k - 5" notebook] by simp
  with assms(1) obtain g5 where
    g5: "snd (run env (load_cell @ head_cell @ target_cell) (start fs)) = Inr g5" and
    rest: "snd (run env (take (k - 5) (drop 5 notebook)) g5) = Inr g"
    by (auto simp: run_ok_append notebook_after_target(1))
  from target_cell_ok [OF g5] obtain csv speed df where
    first: "pd_read_csv env csv_file = Inr csv" "getitem csv ''AdoptionSpeed'' = Inr speed"
      "length speed = nrows csv" "bound_frame g5 (v_dataframe g5) = Some df"
      "getitem df ''target'' = Inr (map (\<lambda>x. if x = IntV 4 then IntV 0 else IntV 1) speed)"
      "valid_refs g5" "unused_columns_gone g5"
    by blast
  have "set (take (k - 5) (drop 5 notebook)) \<inter> {ReadCsv, MakeTarget, DropUnused} = {}"
    using notebook_after_target(2) set_take_subset [of "k - 5" "drop 5 notebook"] by blast
  from run_later_keeps [OF this first(6,4,7) rest] have
    "bound_frame g (v_dataframe g) = Some df \<and> unused_columns_gone g" .
  moreover have "steps (take 5 notebook) = [LoadCsv]"
    by (simp add: notebook_statements steps_def List.map_filter_simps)
  ultimately show ?thesis using first(1,2,3,5) by blast
qed

theorem target_derived_and_columns_dropped_witness:
  "\<exists>g df. snd (run example_env (take 42 notebook) (start no_files)) = Inr g \<and> (5::nat) \<le> 42
     \<and> getitem example_csv ''AdoptionSpeed'' = Inr [IntV 2, IntV 4, IntV 0]
     \<and> bound_frame g (v_dataframe g) = Some df
     \<and> getitem df ''target'' = Inr [IntV 1, IntV 0, IntV 1]
     \<and> unused_columns_gone g"
proof -
  from example_notebook_ok obtain g where
    ok: "snd (run example_env (take 42 notebook) (start no_files)) = Inr g"
    by (cases "snd (run example_env (take 42 notebook) (start no_files))") auto
  have k: "(5::nat) \<le> 42" by simp
  have csv: "pd_read_csv example_env csv_file = Inr example_csv"
    by (simp add: example_env_def)
  have speed: "getitem example_csv ''AdoptionSpeed'' = Inr [IntV 2, IntV 4, IntV 0]"
    by (simp add: getitem_def example_csv_def)
  from target_derived_and_columns_dropped [OF ok k] csv speed obtain df where
    "bound_frame g (v_dataframe g) = Some df"
    "getitem df ''target'' = Inr [IntV 1, IntV 0, IntV 1]"
    "unused_columns_gone g"
    by auto
  with ok speed k show ?thesis by blast
qed

section \<open>The preprocessing helpers\<close>

lemma map_feature_eq_Inr:
  "map_feature name ds = Inr feature_ds \<longleftrightarrow>
     (\<exists>keys. feature_keys ds = Some keys \<and> name \<in> set keys \<and> feature_ds = MapFeature name ds)"
  by (auto simp: map_feature_def split: option.splits)

lemma get_normalization_layer_eq_Inr:
  "get_normalization_layer env name dataset = Inr layer \<longleftrightarrow>
     (\<exists>keys s. feature_keys dataset = Some keys \<and> name \<in> set keys
        \<and> layer_adapt env (Normalization None) (MapFeature name dataset) = Inr s
        \<and> layer = Normalization (Some s))"
  by (auto simp: get_normalization_layer_def and_then_eq_Inr map_feature_eq_Inr)

lemma new_StringLookup_eq_Inr:
  "new_StringLookup max_tokens = Inr index \<longleftrightarrow>
     (case max_tokens of None \<Rightarrow> True | Some m \<Rightarrow> 1 < m) \<and> index = StringLookup max_tokens []"
  by (auto simp: new_StringLookup_def split: option.splits)

lemma new_IntegerLookup_eq_Inr:
  "new_IntegerLookup max_tokens = Inr index \<longleftrightarrow>
     (case max_tokens of None \<Rightarrow> True | Some m \<Rightarrow> 1 < m) \<and> index = IntegerLookup max_tokens []"
  by (auto simp: new_IntegerLookup_def split: option.splits)

lemma get_category_encoding_layer_eq_Inr:
  "get_category_encoding_layer env name dataset dtype max_tokens = Inr layer \<longleftrightarrow>
     (case max_tokens of None \<Rightarrow> True | Some m \<Rightarrow> 1 < m)
     \<and> (\<exists>keys tokens. feature_keys dataset = Some keys \<and> name \<in> set keys
        \<and> token_ranking env (if dtype = ''string'' then StringLookup max_tokens []
                              else IntegerLookup max_tokens []) (MapFeature name dataset) = Inr tokens
        \<and> layer = (\<lambda>feature.
             Call (CategoryEncoding (Suc (length (learned max_tokens tokens))))
               (Call (if dtype = ''string'' then StringLookup max_tokens (learned max_tokens tokens)
                      else IntegerLookup max_tokens (learned max_tokens tokens)) feature)))"
  by (auto simp: get_category_encoding_layer_def and_then_eq_Inr map_feature_eq_Inr
      new_StringLookup_eq_Inr new_IntegerLookup_eq_Inr)

lemma get_category_encoding_layer_small_max_tokens:
  "m \<le> 1 \<Longrightarrow> get_category_encoding_layer env name dataset dtype (Some m) =
     Inl (ValueError ''If set, max_tokens must be greater than 1'')"
  by (simp add: get_category_encoding_layer_def new_StringLookup_def new_IntegerLookup_def)

lemma learned_bound:
  "1 < m \<Longrightarrow> Suc (length (learned (Some m) tokens)) \<le> m"
  by (simp add: learned_def)










lemma is_integer_iff: "is_integer v \<longleftrightarrow> \<not> is_string v"
  by (cases v) simp_all








section \<open>The inputs of the model\<close>

lemma append_feature_eq_Inr:
  "append_feature col enc g = Inr g' \<longleftrightarrow>
     (\<exists>ins encs. v_all_inputs g = Some ins \<and> v_encoded_features g = Some encs
        \<and> g' = g\<lparr>v_all_inputs := Some (ins @ [col]), v_encoded_features := Some (encs @ [enc])\<rparr>)"
  by (auto simp: append_feature_def and_then_eq_Inr)

lemma exec_NumericFeature:
  assumes "exec env (NumericFeature header) g = Inr g'"
    and "v_all_inputs g = Some ins" and "v_encoded_features g = Some encs"
    and "v_train_ds g = Some ds"
  shows "\<exists>enc. encoding_of enc = Some (header, DFloat32, Numeric)
      \<and> encoded_as env ds (header, Numeric) enc
      \<and> v_train_ds g' = Some ds
      \<and> v_all_inputs g' = Some (ins @ [Input header DFloat32])
      \<and> v_encoded_features g' = Some (encs @ [enc])"
  using assms
  by (fastforce simp: and_then_eq_Inr Let_def get_normalization_layer_eq_Inr append_feature_eq_Inr)

lemma exec_AgeFeature:
  assumes "exec env AgeFeature g = Inr g'"
    and "v_all_inputs g = Some ins" and "v_encoded_features g = Some encs"
    and "v_train_ds g = Some ds"
  shows "\<exists>enc. encoding_of enc = Some (''Age'', DInt64, IntegerCategorical)
      \<and> encoded_as env ds (''Age'', IntegerCategorical) enc
      \<and> v_train_ds g' = Some ds
      \<and> v_all_inputs g' = Some (ins @ [Input ''Age'' DInt64])
      \<and> v_encoded_features g' = Some (encs @ [enc])"
  using assms
  by (fastforce simp: and_then_eq_Inr Let_def get_category_encoding_layer_eq_Inr
      append_feature_eq_Inr learned_def)

lemma exec_CategoricalFeature:
  assumes "exec env (CategoricalFeature header) g = Inr g'"
    and "v_all_inputs g = Some ins" and "v_encoded_features g = Some encs"
    and "v_train_ds g = Some ds"
  shows "\<exists>enc. encoding_of enc = Some (header, DString, StringCategorical)
      \<and> encoded_as env ds (header, StringCategorical) enc
      \<and> v_train_ds g' = Some ds
      \<and> v_all_inputs g' = Some (ins @ [Input header DString])
      \<and> v_encoded_features g' = Some (encs @ [enc])"
  using assms
  by (fastforce simp: and_then_eq_Inr Let_def get_category_encoding_layer_eq_Inr
      append_feature_eq_Inr learned_def)

lemma run_numeric_features:
  assumes "snd (run env (map NumericFeature headers) g) = Inr g'"
    and "v_all_inputs g = Some ins" and "v_encoded_features g = Some encs"
    and "v_train_ds g = Some ds"
  shows "\<exists>new. map encoding_of new = map (\<lambda>h. Some (h, DFloat32, Numeric)) headers
      \<and> list_all2 (encoded_as env ds) (map (\<lambda>h. (h, Numeric)) headers) new
      \<and> v_train_ds g' = Some ds
      \<and> v_all_inputs g' = Some (ins @ map (\<lambda>h. Input h DFloat32) headers)
      \<and> v_encoded_features g' = Some (encs @ new)"
  using assms
proof (induction headers arbitrary: g ins encs)
  case Nil
  then show ?case by simp
next
  case (Cons h headers)
  from Cons.prems(1) obtain g1 where g1: "exec env (NumericFeature h) g = Inr g1"
      "snd (run env (map NumericFeature headers) g1) = Inr g'"
    by (auto simp: run_ok_Cons)
  from exec_NumericFeature [OF g1(1) Cons.prems(2,3,4)] obtain enc where
    enc: "encoding_of enc = Some (h, DFloat32, Numeric)"
      "encoded_as env ds (h, Numeric) enc"
      "v_all_inputs g1 = Some (ins @ [Input h DFloat32])"
      "v_encoded_features g1 = Some (encs @ [enc])"
      "v_train_ds g1 = Some ds"
    by auto
  from Cons.IH [OF g1(2) enc(3,4,5)] obtain new where
    "map encoding_of new = map (\<lambda>h. Some (h, DFloat32, Numeric)) headers"
    "list_all2 (encoded_as env ds) (map (\<lambda>h. (h, Numeric)) headers) new"
    "v_train_ds g' = Some ds"
    "v_all_inputs g' = Some ((ins @ [Input h DFloat32]) @ map (\<lambda>h. Input h DFloat32) headers)"
    "v_encoded_features g' = Some ((encs @ [enc]) @ new)"
    by blast
  with enc(1,2) show ?case by (intro exI [of _ "enc # new"]) simp
qed

lemma run_categorical_features:
  assumes "snd (run env (map CategoricalFeature headers) g) = Inr g'"
    and "v_all_inputs g = Some ins" and "v_encoded_features g = Some encs"
    and "v_train_ds g = Some ds"
  shows "\<exists>new. map encoding_of new = map (\<lambda>h. Some (h, DString, StringCategorical)) headers
      \<and> list_all2 (encoded_as env ds) (map (\<lambda>h. (h, StringCategorical)) headers) new
      \<and> v_train_ds g' = Some ds
      \<and> v_all_inputs g' = Some (ins @ map (\<lambda>h. Input h DString) headers)
      \<and> v_encoded_features g' = Some (encs @ new)"
  using assms
proof (induction headers arbitrary: g ins encs)
  case Nil
  then show ?case by simp
next
  case (Cons h headers)
  from Cons.prems(1) obtain g1 where g1: "exec env (CategoricalFeature h) g = Inr g1"
      "snd (run env (map CategoricalFeature headers) g1) = Inr g'"
    by (auto simp: run_ok_Cons)
  from exec_CategoricalFeature [OF g1(1) Cons.prems(2,3,4)] obtain enc where
    enc: "encoding_of enc = Some (h, DString, StringCategorical)"
      "encoded_as env ds (h, StringCategorical) enc"
      "v_all_inputs g1 = Some (ins @ [Input h DString])"
      "v_encoded_features g1 = Some (encs @ [enc])"
      "v_train_ds g1 = Some ds"
    by auto
  from Cons.IH [OF g1(2) enc(3,4,5)] obtain new where
    "map encoding_of new = map (\<lambda>h. Some (h, DString, StringCategorical)) headers"
    "list_all2 (encoded_as env ds) (map (\<lambda>h. (h, StringCategorical)) headers) new"
    "v_train_ds g' = Some ds"
    "v_all_inputs g' = Some ((ins @ [Input h DString]) @ map (\<lambda>h. Input h DString) headers)"
    "v_encoded_features g' = Some ((encs @ [enc]) @ new)"
    by blast
  with enc(1,2) show ?case by (intro exI [of _ "enc # new"]) simp
qed

lemma feature_cells_ok:
  assumes "snd (run env (numeric_cell @ age_cell @ categorical_cell @ model_cell) g) = Inr g'"
    and "v_train_ds g = Some ds"
  shows "\<exists>model encoded. v_model g' = Some model
      \<and> v_train_ds g' = Some ds
      \<and> model_output model =
          Call (Dense 1 None) (Call (Dropout 0.5) (Call (Dense 32 (Some ''relu'')) (Concatenate encoded)))
      \<and> map encoding_of encoded =
          map (\<lambda>h. Some (h, DFloat32, Numeric)) [''PhotoAmt'', ''Fee'']
          @ [Some (''Age'', DInt64, IntegerCategorical)]
          @ map (\<lambda>h. Some (h, DString, StringCategorical)) categorical_cols
      \<and> list_all2 (encoded_as env ds)
          (map (\<lambda>h. (h, Numeric)) [''PhotoAmt'', ''Fee''] @ [(''Age'', IntegerCategorical)]
           @ map (\<lambda>h. (h, StringCategorical)) categorical_cols) encoded
      \<and> model_inputs model =
          map (\<lambda>h. Input h DFloat32) [''PhotoAmt'', ''Fee''] @ [Input ''Age'' DInt64]
          @ map (\<lambda>h. Input h DString) categorical_cols"
proof -
  from assms(1) obtain g1 g2 g3 g4 where
    g1: "snd (run env (map NumericFeature [''PhotoAmt'', ''Fee''])
           (g\<lparr>v_all_inputs := Some [], v_encoded_features := Some []\<rparr>)) = Inr g1" and
    g2: "exec env AgeFeature g1 = Inr g2" and
    g3: "snd (run env (map CategoricalFeature categorical_cols) g2) = Inr g3" and
    g4: "exec env BuildModel g3 = Inr g4" and
    g5: "exec env Compile g4 = Inr g'"
    unfolding numeric_cell_def age_cell_def categorical_cell_def model_cell_def
    by (auto simp: run_ok_append run_ok_Cons)
  have "v_all_inputs (g\<lparr>v_all_inputs := Some [], v_encoded_features := Some []\<rparr>) = Some []"
    "v_encoded_features (g\<lparr>v_all_inputs := Some [], v_encoded_features := Some []\<rparr>) = Some []"
    "v_train_ds (g\<lparr>v_all_inputs := Some [], v_encoded_features := Some []\<rparr>) = Some ds"
    using assms(2) by simp_all
  from run_numeric_features [OF g1 this] obtain new1 where
    0: "map encoding_of new1 = map (\<lambda>h. Some (h, DFloat32, Numeric)) [''PhotoAmt'', ''Fee'']"
       "list_all2 (encoded_as env ds) (map (\<lambda>h. (h, Numeric)) [''PhotoAmt'', ''Fee'']) new1"
       "v_train_ds g1 = Some ds"
       "v_all_inputs g1 = Some ([] @ map (\<lambda>h. Input h DFloat32) [''PhotoAmt'', ''Fee''])"
       "v_encoded_features g1 = Some ([] @ new1)"
    by blast
  then have
    1: "v_all_inputs g1 = Some (map (\<lambda>h. Input h DFloat32) [''PhotoAmt'', ''Fee''])"
       "v_encoded_features g1 = Some new1"
    by simp_all
  from exec_AgeFeature [OF g2 1 0(3)] obtain enc where
    2: "encoding_of enc = Some (''Age'', DInt64, IntegerCategorical)"
       "encoded_as env ds (''Age'', IntegerCategorical) enc"
       "v_train_ds g2 = Some ds"
       "v_all_inputs g2 = Some (map (\<lambda>h. Input h DFloat32) [''PhotoAmt'', ''Fee''] @ [Input ''Age'' DInt64])"
       "v_encoded_features g2 = Some (new1 @ [enc])"
    by blast
  from run_categorical_features [OF g3 2(4,5,3)] obtain new3 where
    3: "map encoding_of new3 = map (\<lambda>h. Some (h, DString, StringCategorical)) categorical_cols"
       "list_all2 (encoded_as env ds) (map (\<lambda>h. (h, StringCategorical)) categorical_cols) new3"
       "v_train_ds g3 = Some ds"
       "v_all_inputs g3 = Some ((map (\<lambda>h. Input h DFloat32) [''PhotoAmt'', ''Fee''] @ [Input ''Age'' DInt64])
          @ map (\<lambda>h. Input h DString) categorical_cols)"
       "v_encoded_features g3 = Some ((new1 @ [enc]) @ new3)"
    by blast
  from g4 3(3,4,5) have 4: "v_model g4 = Some \<lparr>model_inputs =
        (map (\<lambda>h. Input h DFloat32) [''PhotoAmt'', ''Fee''] @ [Input ''Age'' DInt64])
          @ map (\<lambda>h. Input h DString) categorical_cols,
      model_output = Call (Dense 1 None) (Call (Dropout 0.5)
        (Call (Dense 32 (Some ''relu'')) (Concatenate ((new1 @ [enc]) @ new3)))),
      compile_args = None, trained = None\<rparr>" "v_train_ds g4 = Some ds"
    by (auto simp: and_then_eq_Inr Let_def)
  from g5 4 obtain model where
    5: "v_model g' = Some model"
       "model_inputs model = (map (\<lambda>h. Input h DFloat32) [''PhotoAmt'', ''Fee''] @ [Input ''Age'' DInt64])
          @ map (\<lambda>h. Input h DString) categorical_cols"
       "model_output model = Call (Dense 1 None) (Call (Dropout 0.5)
        (Call (Dense 32 (Some ''relu'')) (Concatenate ((new1 @ [enc]) @ new3))))"
       "v_train_ds g' = Some ds"
    by (auto simp: and_then_eq_Inr)
  have "map encoding_of ((new1 @ [enc]) @ new3) =
          map (\<lambda>h. Some (h, DFloat32, Numeric)) [''PhotoAmt'', ''Fee'']
          @ [Some (''Age'', DInt64, IntegerCategorical)]
          @ map (\<lambda>h. Some (h, DString, StringCategorical)) categorical_cols"
    using 0(1) 2(1) 3(1) by simp
  moreover have "list_all2 (encoded_as env ds)
          (map (\<lambda>h. (h, Numeric)) [''PhotoAmt'', ''Fee''] @ [(''Age'', IntegerCategorical)]
           @ map (\<lambda>h. (h, StringCategorical)) categorical_cols) ((new1 @ [enc]) @ new3)"
  proof -
    from 2(2) have "list_all2 (encoded_as env ds) [(''Age'', IntegerCategorical)] [enc]"
      by (simp only: list_all2_Cons list_all2_Nil simp_thms)
    from list_all2_appendI [OF 0(2) list_all2_appendI [OF this 3(2)]] show ?thesis
      by (simp only: append_assoc)
  qed
  ultimately show ?thesis using 5
    by (intro exI [of _ model] exI [of _ "(new1 @ [enc]) @ new3"]) simp
qed

lemma run_quiet:
  assumes "list_all (\<lambda>s. \<not> touches_frames s) ss" and "snd (run env ss g) = Inr g'"
  shows "frame_state g' = frame_state g"
  using assms
proof (induction ss arbitrary: g)
  case Nil
  then show ?case by simp
next
  case (Cons s ss)
  from Cons.prems(2) obtain g1 where g1: "exec env s g = Inr g1" "snd (run env ss g1) = Inr g'"
    by (auto simp: run_ok_Cons)
  from Cons.prems(1) have "\<not> touches_frames s" "list_all (\<lambda>s. \<not> touches_frames s) ss"
    by simp_all
  from quiet_exec [OF this(1) g1(1)] Cons.IH [OF this(2) g1(2)] show ?case by simp
qed

lemma after_model_cells:
  assumes "snd (run env (plot_cell @ fit_cell @ evaluate_cell @ save_cell @ predict_cell) g) = Inr g'"
    and "v_model g = Some model"
  shows "\<exists>model'. v_model g' = Some model' \<and> model_inputs model' = model_inputs model
      \<and> model_output model' = model_output model"
  using assms
  unfolding plot_cell_def fit_cell_def evaluate_cell_def save_cell_def predict_cell_def
  by (auto simp: run_ok_Cons and_then_eq_Inr Let_def split: option.split_asm)

lemma after_model_cells_quiet:
  assumes "snd (run env (plot_cell @ fit_cell @ evaluate_cell @ save_cell @ predict_cell) g) = Inr g'"
  shows "v_train_ds g' = v_train_ds g"
proof -
  have "list_all (\<lambda>s. \<not> touches_frames s)
      (plot_cell @ fit_cell @ evaluate_cell @ save_cell @ predict_cell)"
    by (simp add: plot_cell_def fit_cell_def evaluate_cell_def save_cell_def predict_cell_def)
  from run_quiet [OF this assms] show ?thesis by (simp add: frame_state_def)
qed

lemma before_model_cells:
  assumes "snd (run env (load_cell @ head_cell @ target_cell @ split_cell
    @ small_batch_cell @ first_batch_cell @ demo_cells @ pipeline_cell) g) = Inr g'"
  shows "\<exists>ds. v_train_ds g' = Some ds"
proof -
  define first where "first = load_cell @ head_cell @ target_cell @ split_cell
    @ small_batch_cell @ first_batch_cell @ demo_cells"
  from assms have "snd (run env (first @ pipeline_cell) g) = Inr g'"
    by (simp add: first_def)
  then obtain g0 where "snd (run env pipeline_cell g0) = Inr g'"
    using run_ok_append [of env first pipeline_cell g g'] by blast
  then obtain g1 g2 g3 where a: "exec env WrapTrain g1 = Inr g2"
    and b: "exec env WrapVal g2 = Inr g3" and c: "exec env WrapTest g3 = Inr g'"
    unfolding pipeline_cell_def by (auto simp: run_ok_Cons simp del: exec.simps)
  from exec_WrapTrain [OF a] obtain ds where "v_train_ds g2 = Some ds" by auto
  moreover from exec_WrapVal [OF b] have "v_train_ds g3 = v_train_ds g2" by auto
  moreover from exec_WrapTest [OF c] have "v_train_ds g' = v_train_ds g3" by auto
  ultimately show ?thesis by simp
qed

text \<open>
  Claim C8. Every column fed to the model has one fixed semantic type. When the
  notebook has run, the model has thirteen inputs, each encoded in one way:
  \<open>PhotoAmt\<close> and \<open>Fee\<close> are numeric, each passed through the \<open>Normalization\<close> layer adapted
  on that feature of the training dataset; \<open>Age\<close> is integer-categorical, passed through
  the \<open>IntegerLookup\<close> adapted on that feature of the training dataset and a
  \<open>CategoryEncoding\<close> as wide as its vocabulary size; the ten string columns are
  string-categorical, each passed through the \<open>StringLookup\<close> adapted on that feature of
  the training dataset and a \<open>CategoryEncoding\<close> as wide as its vocabulary size. The
  model's output is the dense classifier over the concatenation of these encodings, and
  \<open>Description\<close> is not an input.
\<close>

theorem model_inputs_typed:
  assumes "snd (run env notebook g) = Inr g'"
  shows "\<exists>model encoded train_ds. v_model g' = Some model
      \<and> model_output model =
          Call (Dense 1 None) (Call (Dropout 0.5) (Call (Dense 32 (Some ''relu'')) (Concatenate encoded)))
      \<and> map encoding_of encoded =
          [Some (''PhotoAmt'', DFloat32, Numeric), Some (''Fee'', DFloat32, Numeric),
           Some (''Age'', DInt64, IntegerCategorical),
           Some (''Type'', DString, StringCategorical), Some (''Color1'', DString, StringCategorical),
           Some (''Color2'', DString, StringCategorical), Some (''Gender'', DString, StringCategorical),
           Some (''MaturitySize'', DString, StringCategorical),
           Some (''FurLength'', DString, StringCategorical),
           Some (''Vaccinated'', DString, StringCategorical),
           Some (''Sterilized'', DString, StringCategorical),
           Some (''Health'', DString, StringCategorical), Some (''Breed1'', DString, StringCategorical)]
      \<and> v_train_ds g' = Some train_ds
      \<and> list_all2 (encoded_as env train_ds)
          [(''PhotoAmt'', Numeric), (''Fee'', Numeric), (''Age'', IntegerCategorical),
           (''Type'', StringCategorical), (''Color1'', StringCategorical),
           (''Color2'', StringCategorical), (''Gender'', StringCategorical),
           (''MaturitySize'', StringCategorical), (''FurLength'', StringCategorical),
           (''Vaccinated'', StringCategorical), (''Sterilized'', StringCategorical),
           (''Health'', StringCategorical), (''Breed1'', StringCategorical)] encoded
      \<and> model_inputs model =
          [Input ''PhotoAmt'' DFloat32, Input ''Fee'' DFloat32, Input ''Age'' DInt64,
           Input ''Type'' DString, Input ''Color1'' DString, Input ''Color2'' DString,
           Input ''Gender'' DString, Input ''MaturitySize'' DString, Input ''FurLength'' DString,
           Input ''Vaccinated'' DString, Input ''Sterilized'' DString, Input ''Health'' DString,
           Input ''Breed1'' DString]
      \<and> (\<forall>d. Input ''Description'' d \<notin> set (model_inputs model))"
proof -
  define before where "before = load_cell @ head_cell @ target_cell @ split_cell
    @ small_batch_cell @ first_batch_cell @ demo_cells @ pipeline_cell"
  define after where "after = plot_cell @ fit_cell @ evaluate_cell @ save_cell @ predict_cell"
  define middle where "middle = numeric_cell @ age_cell @ categorical_cell @ model_cell"
  have "notebook = before @ middle @ after"
    by (simp add: notebook_def before_def middle_def after_def)
  with assms have "snd (run env (before @ middle @ after) g) = Inr g'" by simp
  then obtain g1 where g1: "snd (run env before g) = Inr g1"
    "snd (run env (middle @ after) g1) = Inr g'"
    using run_ok_append [of env before "middle @ after" g g'] by blast
  then obtain g2 where "snd (run env middle g1) = Inr g2" "snd (run env after g2) = Inr g'"
    using run_ok_append [of env middle after g1 g'] by blast
  then have
    mid: "snd (run env (numeric_cell @ age_cell @ categorical_cell @ model_cell) g1) = Inr g2" and
    rest: "snd (run env (plot_cell @ fit_cell @ evaluate_cell @ save_cell @ predict_cell) g2) = Inr g'"
    by (simp_all only: middle_def after_def)
  from g1(1) have "snd (run env (load_cell @ head_cell @ target_cell @ split_cell
    @ small_batch_cell @ first_batch_cell @ demo_cells @ pipeline_cell) g) = Inr g1"
    by (simp only: before_def)
  from before_model_cells [OF this] obtain train_ds where ds: "v_train_ds g1 = Some train_ds"
    by blast
  from feature_cells_ok [OF mid ds] obtain built encoded where
    built: "v_model g2 = Some built"
      "v_train_ds g2 = Some train_ds"
      "model_output built =
          Call (Dense 1 None) (Call (Dropout 0.5) (Call (Dense 32 (Some ''relu'')) (Concatenate encoded)))"
      "map encoding_of encoded =
          map (\<lambda>h. Some (h, DFloat32, Numeric)) [''PhotoAmt'', ''Fee'']
          @ [Some (''Age'', DInt64, IntegerCategorical)]
          @ map (\<lambda>h. Some (h, DString, StringCategorical)) categorical_cols"
      "list_all2 (encoded_as env train_ds)
          (map (\<lambda>h. (h, Numeric)) [''PhotoAmt'', ''Fee''] @ [(''Age'', IntegerCategorical)]
           @ map (\<lambda>h. (h, StringCategorical)) categorical_cols) encoded"
      "model_inputs built =
          map (\<lambda>h. Input h DFloat32) [''PhotoAmt'', ''Fee''] @ [Input ''Age'' DInt64]
          @ map (\<lambda>h. Input h DString) categorical_cols"
    by blast
  from after_model_cells [OF rest built(1)] obtain model where
    model: "v_model g' = Some model" "model_inputs model = model_inputs built"
      "model_output model = model_output built"
    by blast
  from after_model_cells_quiet [OF rest] built(2) have ds': "v_train_ds g' = Some train_ds"
    by simp
  have inputs: "model_inputs model =
          [Input ''PhotoAmt'' DFloat32, Input ''Fee'' DFloat32, Input ''Age'' DInt64,
           Input ''Type'' DString, Input ''Color1'' DString, Input ''Color2'' DString,
           Input ''Gender'' DString, Input ''MaturitySize'' DString, Input ''FurLength'' DString,
           Input ''Vaccinated'' DString, Input ''Sterilized'' DString, Input ''Health'' DString,
           Input ''Breed1'' DString]"
    using model(2) built(6) by (simp add: categorical_cols_def)
  from inputs have no_description: "\<forall>d. Input ''Description'' d \<notin> set (model_inputs model)"
    by simp
  have types: "map encoding_of encoded =
          [Some (''PhotoAmt'', DFloat32, Numeric), Some (''Fee'', DFloat32, Numeric),
           Some (''Age'', DInt64, IntegerCategorical),
           Some (''Type'', DString, StringCategorical), Some (''Color1'', DString, StringCategorical),
           Some (''Color2'', DString, StringCategorical), Some (''Gender'', DString, StringCategorical),
           Some (''MaturitySize'', DString, StringCategorical),
           Some (''FurLength'', DString, StringCategorical),
           Some (''Vaccinated'', DString, StringCategorical),
           Some (''Sterilized'', DString, StringCategorical),
           Some (''Health'', DString, StringCategorical), Some (''Breed1'', DString, StringCategorical)]"
    using built(4) by (simp add: categorical_cols_def)
  have layers: "list_all2 (encoded_as env train_ds)
          [(''PhotoAmt'', Numeric), (''Fee'', Numeric), (''Age'', IntegerCategorical),
           (''Type'', StringCategorical), (''Color1'', StringCategorical),
           (''Color2'', StringCategorical), (''Gender'', StringCategorical),
           (''MaturitySize'', StringCategorical), (''FurLength'', StringCategorical),
           (''Vaccinated'', StringCategorical), (''Sterilized'', StringCategorical),
           (''Health'', StringCategorical), (''Breed1'', StringCategorical)] encoded"
    using built(5) by (simp only: categorical_cols_def list.map append.simps)
  from model(3) built(3) have out: "model_output model =
          Call (Dense 1 None) (Call (Dropout 0.5) (Call (Dense 32 (Some ''relu'')) (Concatenate encoded)))"
    by simp
  show ?thesis
    apply (rule exI [of _ model], rule exI [of _ encoded], rule exI [of _ train_ds])
    apply (intro conjI)
    subgoal by (fact model(1))
    subgoal by (fact out)
    subgoal by (fact types)
    subgoal by (fact ds')
    subgoal by (fact layers)
    subgoal by (fact inputs)
    subgoal by (fact no_description)
    done
qed

lemma example_model:
  "map_option model_output (v_model (projr (snd (run example_env notebook (start no_files))))) =
     Some (Call (Dense 1 None) (Call (Dropout 0.5) (Call (Dense 32 (Some ''relu'')) (Concatenate
       [Call (Normalization (Some 0)) (Input ''PhotoAmt'' DFloat32),
        Call (Normalization (Some 0)) (Input ''Fee'' DFloat32),
        Call (CategoryEncoding 2) (Call (IntegerLookup (Some 5) [IntV 3]) (Input ''Age'' DInt64)),
        Call (CategoryEncoding 2) (Call (StringLookup (Some 5) [StrV ''Cat'']) (Input ''Type'' DString)),
        Call (CategoryEncoding 2) (Call (StringLookup (Some 5) [StrV ''Black'']) (Input ''Color1'' DString)),
        Call (CategoryEncoding 2) (Call (StringLookup (Some 5) [StrV ''White'']) (Input ''Color2'' DString)),
        Call (CategoryEncoding 2) (Call (StringLookup (Some 5) [StrV ''Male'']) (Input ''Gender'' DString)),
        Call (CategoryEncoding 2) (Call (StringLookup (Some 5) [StrV ''Small'']) (Input ''MaturitySize'' DString)),
        Call (CategoryEncoding 2) (Call (StringLookup (Some 5) [StrV ''Short'']) (Input ''FurLength'' DString)),
        Call (CategoryEncoding 2) (Call (StringLookup (Some 5) [StrV ''No'']) (Input ''Vaccinated'' DString)),
        Call (CategoryEncoding 2) (Call (StringLookup (Some 5) [StrV ''No'']) (Input ''Sterilized'' DString)),
        Call (CategoryEncoding 2) (Call (StringLookup (Some 5) [StrV ''Healthy'']) (Input ''Health'' DString)),
        Call (CategoryEncoding 2) (Call (StringLookup (Some 5) [StrV ''Tabby'']) (Input ''Breed1'' DString))]))))"
  by code_simp

theorem model_inputs_typed_witness:
  "\<exists>g' model. snd (run example_env notebook (start no_files)) = Inr g'
     \<and> v_model g' = Some model
     \<and> model_inputs model =
          [Input ''PhotoAmt'' DFloat32, Input ''Fee'' DFloat32, Input ''Age'' DInt64,
           Input ''Type'' DString, Input ''Color1'' DString, Input ''Color2'' DString,
           Input ''Gender'' DString, Input ''MaturitySize'' DString, Input ''FurLength'' DString,
           Input ''Vaccinated'' DString, Input ''Sterilized'' DString, Input ''Health'' DString,
           Input ''Breed1'' DString]
     \<and> (\<forall>d. Input ''Description'' d \<notin> set (model_inputs model))
     \<and> model_output model =
         Call (Dense 1 None) (Call (Dropout 0.5) (Call (Dense 32 (Some ''relu'')) (Concatenate
       [Call (Normalization (Some 0)) (Input ''PhotoAmt'' DFloat32),
        Call (Normalization (Some 0)) (Input ''Fee'' DFloat32),
        Call (CategoryEncoding 2) (Call (IntegerLookup (Some 5) [IntV 3]) (Input ''Age'' DInt64)),
        Call (CategoryEncoding 2) (Call (StringLookup (Some 5) [StrV ''Cat'']) (Input ''Type'' DString)),
        Call (CategoryEncoding 2) (Call (StringLookup (Some 5) [StrV ''Black'']) (Input ''Color1'' DString)),
        Call (CategoryEncoding 2) (Call (StringLookup (Some 5) [StrV ''White'']) (Input ''Color2'' DString)),
        Call (CategoryEncoding 2) (Call (StringLookup (Some 5) [StrV ''Male'']) (Input ''Gender'' DString)),
        Call (CategoryEncoding 2) (Call (StringLookup (Some 5) [StrV ''Small'']) (Input ''MaturitySize'' DString)),
        Call (CategoryEncoding 2) (Call (StringLookup (Some 5) [StrV ''Short'']) (Input ''FurLength'' DString)),
        Call (CategoryEncoding 2) (Call (StringLookup (Some 5) [StrV ''No'']) (Input ''Vaccinated'' DString)),
        Call (CategoryEncoding 2) (Call (StringLookup (Some 5) [StrV ''No'']) (Input ''Sterilized'' DString)),
        Call (CategoryEncoding 2) (Call (StringLookup (Some 5) [StrV ''Healthy'']) (Input ''Health'' DString)),
        Call (CategoryEncoding 2) (Call (StringLookup (Some 5) [StrV ''Tabby'']) (Input ''Breed1'' DString))])))"
proof -
  from example_run_ok obtain g' where ok: "snd (run example_env notebook (start no_files)) = Inr g'"
    by (cases "snd (run example_env notebook (start no_files))") auto
  from model_inputs_typed [OF ok] obtain model where
    model: "v_model g' = Some model"
      "model_inputs model =
          [Input ''PhotoAmt'' DFloat32, Input ''Fee'' DFloat32, Input ''Age'' DInt64,
           Input ''Type'' DString, Input ''Color1'' DString, Input ''Color2'' DString,
           Input ''Gender'' DString, Input ''MaturitySize'' DString, Input ''FurLength'' DString,
           Input ''Vaccinated'' DString, Input ''Sterilized'' DString, Input ''Health'' DString,
           Input ''Breed1'' DString]"
      "\<forall>d. Input ''Description'' d \<notin> set (model_inputs model)"
    by blast
  from example_model ok model(1) have "model_output model =
         Call (Dense 1 None) (Call (Dropout 0.5) (Call (Dense 32 (Some ''relu'')) (Concatenate
       [Call (Normalization (Some 0)) (Input ''PhotoAmt'' DFloat32),
        Call (Normalization (Some 0)) (Input ''Fee'' DFloat32),
        Call (CategoryEncoding 2) (Call (IntegerLookup (Some 5) [IntV 3]) (Input ''Age'' DInt64)),
        Call (CategoryEncoding 2) (Call (StringLookup (Some 5) [StrV ''Cat'']) (Input ''Type'' DString)),
        Call (CategoryEncoding 2) (Call (StringLookup (Some 5) [StrV ''Black'']) (Input ''Color1'' DString)),
        Call (CategoryEncoding 2) (Call (StringLookup (Some 5) [StrV ''White'']) (Input ''Color2'' DString)),
        Call (CategoryEncoding 2) (Call (StringLookup (Some 5) [StrV ''Male'']) (Input ''Gender'' DString)),
        Call (CategoryEncoding 2) (Call (StringLookup (Some 5) [StrV ''Small'']) (Input ''MaturitySize'' DString)),
        Call (CategoryEncoding 2) (Call (StringLookup (Some 5) [StrV ''Short'']) (Input ''FurLength'' DString)),
        Call (CategoryEncoding 2) (Call (StringLookup (Some 5) [StrV ''No'']) (Input ''Vaccinated'' DString)),
        Call (CategoryEncoding 2) (Call (StringLookup (Some 5) [StrV ''No'']) (Input ''Sterilized'' DString)),
        Call (CategoryEncoding 2) (Call (StringLookup (Some 5) [StrV ''Healthy'']) (Input ''Health'' DString)),
        Call (CategoryEncoding 2) (Call (StringLookup (Some 5) [StrV ''Tabby'']) (Input ''Breed1'' DString))])))"
    by simp
  with ok model show ?thesis by blast
qed

section \<open>Errors\<close>















end
